theory Spec2Isabelle
  imports Main "HOL-Library.Word"
begin

section \<open>C library helpers used by bgpreader.c\<close>

text \<open>
  Strings are \<open>char list\<close>. The helpers of this section model functions of the C
  library, not of the repository: the \<open>%d\<close>/\<open>%ld\<close> and \<open>%-15s\<close> conversions of
  \<open>printf\<close>, \<open>atoi\<close>, and \<open>getopt\<close>.
\<close>

definition NUL :: char where
  "NUL = CHR 0x00"

text \<open>What \<open>%s\<close> prints of a character buffer: the bytes before the first NUL.\<close>

definition c_str :: "char list \<Rightarrow> string" where
  "c_str buf = takeWhile (\<lambda>c. c \<noteq> NUL) buf"

definition digit :: "nat \<Rightarrow> char" where
  "digit n = ''0123456789'' ! (n mod 10)"

fun show_nat :: "nat \<Rightarrow> string" where
  "show_nat n = (if n < 10 then [digit n] else show_nat (n div 10) @ [digit n])"

declare show_nat.simps [simp del]

text \<open>\<open>%d\<close> and \<open>%ld\<close>: signed decimal, no padding.\<close>

definition show_int :: "int \<Rightarrow> string" where
  "show_int i = (if i < 0 then CHR ''-'' # show_nat (nat (- i)) else show_nat (nat i))"

text \<open>\<open>%-15s\<close>: left-justified in a field of at least 15 characters.\<close>

definition pad15 :: "string \<Rightarrow> string" where
  "pad15 s = s @ replicate (15 - length s) CHR '' ''"

definition isspace :: "char \<Rightarrow> bool" where
  "isspace c = (c \<in> set [CHR '' '', CHR 0x09, CHR 0x0A, CHR 0x0B, CHR 0x0C, CHR 0x0D])"

definition isdigit :: "char \<Rightarrow> bool" where
  "isdigit c = (c \<in> set ''0123456789'')"

definition digit_val :: "char \<Rightarrow> nat" where
  "digit_val c = of_char c - 48"

fun digits_val :: "nat \<Rightarrow> string \<Rightarrow> nat" where
  "digits_val acc [] = acc"
| "digits_val acc (c # cs) =
     (if isdigit c then digits_val (acc * 10 + digit_val c) cs else acc)"

text \<open>
  \<open>strtol(s, NULL, 10)\<close> on a 64-bit \<open>long\<close>: leading white space, an optional sign, the
  leading decimal digits (0 when there are none), clamped to the range of \<open>long\<close>.
\<close>

definition strtol10 :: "string \<Rightarrow> int" where
  "strtol10 s =
     (let t = dropWhile isspace s;
          v = (case t of
                 [] \<Rightarrow> 0
               | c # r \<Rightarrow>
                   if c = CHR ''-'' then - int (digits_val 0 r)
                   else if c = CHR ''+'' then int (digits_val 0 r)
                   else int (digits_val 0 t))
      in max (- (2 ^ 63)) (min (2 ^ 63 - 1) v))"

text \<open>
  \<open>atoi(s)\<close> is \<open>(int) strtol(s, NULL, 10)\<close>: the low 32 bits. The same bits are the
  \<open>uint32_t\<close> a window bound is stored as, and the \<open>int\<close> of \<open>rib_period\<close>
  (read with \<open>sint\<close>).
\<close>

definition atoi :: "string \<Rightarrow> 32 word" where
  "atoi s = word_of_int (strtol10 s)"

subsection \<open>getopt\<close>

definition optstring :: string where
  "optstring = ''d:o:p:c:t:w:P:brmeh?''"

text \<open>
  One return of \<open>getopt\<close>: the value returned and the globals \<open>optarg\<close>, \<open>optind\<close> and
  \<open>optopt\<close> as the call leaves them.
\<close>

record getopt_ret =
  g_opt :: char
  g_optarg :: "string option"
  g_optind :: nat
  g_optopt :: char

text \<open>Is \<open>c\<close> an option character of the option string, and does it take an argument?\<close>

fun opt_lookup :: "string \<Rightarrow> char \<Rightarrow> bool option" where
  "opt_lookup [] c = None"
| "opt_lookup (x # xs) c =
     (if x = c then Some (case xs of [] \<Rightarrow> False | y # _ \<Rightarrow> y = CHR '':'')
      else opt_lookup xs c)"

text \<open>\<open>NONOPTION_P\<close>: an element that does not begin with \<open>-\<close>, or is \<open>-\<close> alone.\<close>

definition nonoption :: "string \<Rightarrow> bool" where
  "nonoption a = (case a of [] \<Rightarrow> True | c # r \<Rightarrow> c \<noteq> CHR ''-'' \<or> r = [])"

text \<open>
  The successive calls of \<open>getopt(argc, argv, optstring)\<close> up to the call that returns
  -1, as the GNU C library makes them with \<open>opterr = 0\<close> and \<open>POSIXLY_CORRECT\<close> not set,
  so with permutation of \<open>argv\<close>. Each call is given as the option character it examines
  and what it returns. \<open>getopt_scan i oo cs rest\<close>: \<open>i\<close> is \<open>optind\<close>, \<open>oo\<close> is
  \<open>optopt\<close>, \<open>cs\<close> the characters of \<open>argv[i]\<close> still to scan (empty between
  elements) and \<open>rest\<close> the elements from \<open>argv[i]\<close> on when \<open>cs\<close> is empty, the
  elements after \<open>argv[i]\<close> otherwise.

  Between elements the call skips the elements that are not options, adding one to
  \<open>optind\<close> for each (it moves them behind the options later, which changes neither
  \<open>optind\<close> nor what is still to scan), and the scan ends at \<open>--\<close> and at the end of
  \<open>argv\<close>. \<open>optind\<close> goes up by one when the call takes the last character of an
  element, and by one more when it takes the next element as the argument. A character
  that is not in the option string, or is \<open>:\<close> or \<open>;\<close>, returns \<open>?\<close> and sets
  \<open>optopt\<close>; so does an option whose argument is missing at the end of \<open>argv\<close>.
\<close>

fun getopt_scan ::
  "nat \<Rightarrow> char \<Rightarrow> string \<Rightarrow> string list \<Rightarrow> (char \<times> getopt_ret) list" where
  "getopt_scan i oo [] [] = []"
| "getopt_scan i oo [] (a # rest) =
     (if nonoption a then getopt_scan (i + 1) oo [] rest
      else if a = ''--'' then []
      else getopt_scan i oo (tl a) rest)"
| "getopt_scan i oo (c # cs) rest =
     (let i' = (if cs = [] then i + 1 else i) in
      case (if c = CHR '':'' \<or> c = CHR '';'' then None else opt_lookup optstring c) of
        None \<Rightarrow>
          (c, \<lparr>g_opt = CHR ''?'', g_optarg = None, g_optind = i', g_optopt = c\<rparr>)
            # getopt_scan i' c cs rest
      | Some False \<Rightarrow>
          (c, \<lparr>g_opt = c, g_optarg = None, g_optind = i', g_optopt = oo\<rparr>)
            # getopt_scan i' oo cs rest
      | Some True \<Rightarrow>
          (if cs \<noteq> []
           then (c, \<lparr>g_opt = c, g_optarg = Some cs, g_optind = i + 1, g_optopt = oo\<rparr>)
                  # getopt_scan (i + 1) oo [] rest
           else (case rest of
                   [] \<Rightarrow>
                     [(c, \<lparr>g_opt = CHR ''?'', g_optarg = None, g_optind = i + 1,
                           g_optopt = c\<rparr>)]
                 | b # rest' \<Rightarrow>
                     (c, \<lparr>g_opt = c, g_optarg = Some b, g_optind = i + 2, g_optopt = oo\<rparr>)
                       # getopt_scan (i + 2) oo [] rest')))"

text \<open>The calls for an \<open>argv\<close> whose first element is the program's name. The
  initial \<open>optind\<close> is 1. \<open>optopt\<close> is 0 after a call that reports no error: the
  library copies it from its own state, where it is 0 until an error sets it.\<close>

definition getopt_calls :: "string list \<Rightarrow> (char \<times> getopt_ret) list" where
  "getopt_calls argv = getopt_scan 1 (CHR 0x00) [] (tl argv)"

text \<open>The value of \<open>optind\<close> after the calls \<open>gs\<close>, when it was \<open>i\<close> before them.\<close>

definition optind_after :: "nat \<Rightarrow> getopt_ret list \<Rightarrow> nat" where
  "optind_after i gs = foldl (\<lambda>_ g. g_optind g) i gs"

section \<open>The stream engine (bgpstream.h)\<close>

datatype bgpstream_record_dump_type =
  BGPSTREAM_UPDATE | BGPSTREAM_RIB | DUMP_TYPE_OTHER

datatype bgpstream_dump_position =
  BGPSTREAM_DUMP_START | BGPSTREAM_DUMP_MIDDLE | BGPSTREAM_DUMP_END | DUMP_POS_OTHER

datatype bgpstream_record_status =
  BGPSTREAM_RECORD_STATUS_VALID_RECORD
| BGPSTREAM_RECORD_STATUS_FILTERED_SOURCE
| BGPSTREAM_RECORD_STATUS_EMPTY_SOURCE
| BGPSTREAM_RECORD_STATUS_CORRUPTED_SOURCE
| BGPSTREAM_RECORD_STATUS_CORRUPTED_RECORD
| STATUS_OTHER

text \<open>
  Modelled from the spec: the header \<open>bgpstream.h\<close> is not among the sources. The record
  has the attributes the formatter reads; each enumeration has its named values and one
  more constructor for any other value a C enum can hold.
\<close>

record bgpstream_record =
  record_time :: int
  dump_project :: string
  dump_collector :: string
  dump_type :: bgpstream_record_dump_type
  status :: bgpstream_record_status
  dump_time :: int
  dump_pos :: bgpstream_dump_position

text \<open>
  Modelled from the spec: an element is opaque; it is seen through
  \<open>bgpstream_elem_snprintf(elem_buf, 65536, elem)\<close>: whether the call returns the buffer
  (or NULL), and the bytes it leaves in \<open>elem_buf\<close> (bytes the list does not give are NUL).
\<close>

record bgpstream_elem =
  snprintf_ok :: bool
  snprintf_buf :: "char list"

record data_interface_info =
  if_name :: string
  if_description :: string

record data_interface_option =
  opt_name :: string
  opt_description :: string

datatype filter_type =
  BGPSTREAM_FILTER_TYPE_PROJECT
| BGPSTREAM_FILTER_TYPE_COLLECTOR
| BGPSTREAM_FILTER_TYPE_RECORD_TYPE

text \<open>One answer of \<open>bgpstream_get_next_record\<close>: its return value, the record it
  leaves in the handle, and the elements \<open>bgpstream_record_get_next_elem\<close> then yields.\<close>

record get_next =
  gn_ret :: int
  gn_record :: bgpstream_record
  gn_elems :: "bgpstream_elem list"

text \<open>
  Modelled from the spec: the engine is an external library, a black box with the
  contract of section 6 of the specification. The record gives every answer the engine
  makes to the driver; \<open>pulls\<close> are the answers of \<open>bgpstream_get_next_record\<close> in
  order, after which the engine reports exhaustion (0). The three version numbers are
  the macros \<open>BGPSTREAM_MAJOR_VERSION\<close>, \<open>BGPSTREAM_MID_VERSION\<close> and
  \<open>BGPSTREAM_MINOR_VERSION\<close>.
\<close>

record engine =
  major_version :: int
  mid_version :: int
  minor_version :: int
  create_ok :: bool
  default_if :: nat
  if_ids :: "nat list"
  if_info :: "nat \<Rightarrow> data_interface_info option"
  if_id_by_name :: "string \<Rightarrow> nat"
  if_options :: "nat \<Rightarrow> data_interface_option list"
  record_create_ok :: bool
  start_ret :: int
  pulls :: "get_next list"

text \<open>Modelled from the spec: \<open>bgpstream_get_data_interface_option_by_name\<close> resolves a
  name against the option schema of the interface; NULL when the name is unknown.\<close>

definition get_data_interface_option_by_name ::
  "engine \<Rightarrow> nat \<Rightarrow> string \<Rightarrow> data_interface_option option" where
  "get_data_interface_option_by_name e i n =
     find (\<lambda>opt. opt_name opt = n) (if_options e i)"

section \<open>What a run does\<close>

text \<open>The calls on the engine that act on it, in the order the driver makes them.\<close>

datatype engine_call =
  Create
| AddFilter filter_type string
| AddIntervalFilter "32 word" "32 word"
| AddRibPeriodFilter "32 word"
| SetDataInterface nat
| SetBlocking
| SetDataInterfaceOption nat data_interface_option string
| RecordCreate
| Start
| GetNextRecord
| RecordPrintMrtData bgpstream_record
| RecordDestroy
| Stop
| Destroy

datatype event = Stderr string | Stdout string | Call engine_call

text \<open>How the process ends: \<open>exit(n)\<close> or \<open>return n\<close> from \<open>main\<close>, a failed
  \<open>assert\<close>, or a NULL pointer read.\<close>

datatype exit_status = Exit int | Abort | Crash

type_synonym outcome = "event list \<times> exit_status"

definition prepend :: "event list \<Rightarrow> outcome \<Rightarrow> outcome" where
  "prepend evs out = (evs @ fst out, snd out)"

section \<open>Help and introspection printers\<close>

definition data_if_line :: "engine \<Rightarrow> nat \<Rightarrow> event list" where
  "data_if_line e i =
     (case if_info e i of
        None \<Rightarrow> []
      | Some info \<Rightarrow>
          [Stderr (''       '' @ pad15 (if_name info) @ if_description info
                   @ (if i = default_if e then '' (default)'' else [])
                   @ ''\<newline>'')])"

definition data_if_usage :: "engine \<Rightarrow> event list" where
  "data_if_usage e = concat (map (data_if_line e) (if_ids e))"

definition usage_head :: string where
  "usage_head =
     ''usage: bgpreader -w <start,end> [<options>]\<newline>''
   @ ''Available options are:\<newline>''
   @ ''   -d <interface> use the given data interface to find available data\<newline>''
   @ ''                  available data interfaces are:\<newline>''"

definition usage_tail :: string where
  "usage_tail =
     ''   -o <option-name,option-value>*\<newline>''
   @ ''                  set an option for the current data interface.\<newline>''
   @ ''                  use '-o ?' to get a list of available options for the current\<newline>''
   @ ''                  data interface. (data interface can be selected using -d)\<newline>''
   @ ''   -p <project>   process records from only the given project (routeviews, ris)*\<newline>''
   @ ''   -c <collector> process records from only the given collector*\<newline>''
   @ ''   -t <type>      process records with only the given type (ribs, updates)*\<newline>''
   @ ''   -w <start,end> process records only within the given time window*\<newline>''
   @ ''   -P <period>    process a rib files every <period> seconds (bgp time)\<newline>''
   @ ''   -b             make blocking requests for BGP records\<newline>''
   @ ''                  allows bgpstream to be used to process data in real-time\<newline>''
   @ ''\<newline>''
   @ ''   -r             print info for each BGP record (default)\<newline>''
   @ ''   -m             print info for each BGP valid record in bgpdump -m format\<newline>''
   @ ''   -e             print info for each element of a valid BGP record\<newline>''
   @ ''\<newline>''
   @ ''   -h             print this help menu\<newline>''
   @ ''* denotes an option that can be given multiple times\<newline>''"

definition usage :: "engine \<Rightarrow> event list" where
  "usage e = [Stderr usage_head] @ data_if_usage e @ [Stderr usage_tail]"

definition version_banner :: "engine \<Rightarrow> event" where
  "version_banner e =
     Stderr (''bgpreader version '' @ show_int (major_version e) @ ''.''
             @ show_int (mid_version e) @ ''.'' @ show_int (minor_version e)
             @ ''\<newline>'')"

definition option_line :: "data_interface_option \<Rightarrow> event" where
  "option_line opt =
     Stderr (''   '' @ pad15 (opt_name opt) @ opt_description opt @ ''\<newline>'')"

text \<open>
  \<open>dump_if_options\<close> reads the globals \<open>datasource_id\<close> and \<open>datasource_info\<close>, here its
  arguments. The assertion fails on id 0; \<open>datasource_info->name\<close> reads a NULL pointer
  when the engine gave no info.
\<close>

definition dump_if_options ::
  "engine \<Rightarrow> nat \<Rightarrow> data_interface_info option \<Rightarrow> outcome + event list" where
  "dump_if_options e ds_id ds_info =
     (if ds_id = 0 then Inl ([], Abort)
      else case ds_info of
        None \<Rightarrow> Inl ([], Crash)
      | Some info \<Rightarrow>
          Inr ([Stderr (''Data interface options for '' @ [CHR 0x27] @ if_name info
                        @ [CHR 0x27] @ '':\<newline>'')]
               @ (if if_options e ds_id = [] then [Stderr ''   [NONE]\<newline>'']
                  else map option_line (if_options e ds_id))
               @ [Stderr ''\<newline>'']))"

section \<open>Record formatters\<close>

fun get_dump_type_str :: "bgpstream_record_dump_type \<Rightarrow> string" where
  "get_dump_type_str BGPSTREAM_UPDATE = ''update''"
| "get_dump_type_str BGPSTREAM_RIB = ''rib''"
| "get_dump_type_str DUMP_TYPE_OTHER = []"

fun get_dump_pos_str :: "bgpstream_dump_position \<Rightarrow> string" where
  "get_dump_pos_str BGPSTREAM_DUMP_START = ''start''"
| "get_dump_pos_str BGPSTREAM_DUMP_MIDDLE = ''middle''"
| "get_dump_pos_str BGPSTREAM_DUMP_END = ''end''"
| "get_dump_pos_str DUMP_POS_OTHER = []"

fun get_record_status_str :: "bgpstream_record_status \<Rightarrow> string" where
  "get_record_status_str BGPSTREAM_RECORD_STATUS_VALID_RECORD = ''valid_record''"
| "get_record_status_str BGPSTREAM_RECORD_STATUS_FILTERED_SOURCE = ''filtered_source''"
| "get_record_status_str BGPSTREAM_RECORD_STATUS_EMPTY_SOURCE = ''empty_source''"
| "get_record_status_str BGPSTREAM_RECORD_STATUS_CORRUPTED_SOURCE = ''corrupted_source''"
| "get_record_status_str BGPSTREAM_RECORD_STATUS_CORRUPTED_RECORD = ''corrupted_record''"
| "get_record_status_str STATUS_OTHER = []"

text \<open>The eight \<open>printf\<close> calls of \<open>print_bs_record\<close>, one event each.\<close>

definition print_bs_record :: "bgpstream_record \<Rightarrow> event list" where
  "print_bs_record r =
     [Stdout (show_int (record_time r) @ ''|''),
      Stdout (dump_project r @ ''|''),
      Stdout (dump_collector r @ ''|''),
      Stdout (get_dump_type_str (dump_type r) @ ''|''),
      Stdout (get_record_status_str (status r) @ ''|''),
      Stdout (show_int (dump_time r) @ ''|''),
      Stdout (get_dump_pos_str (dump_pos r) @ ''|''),
      Stdout ''\<newline>'']"

text \<open>\<open>print_elem\<close>: the events and the value returned (0 or -1).\<close>

definition print_elem :: "bgpstream_elem \<Rightarrow> event list \<times> int" where
  "print_elem el =
     (if \<not> snprintf_ok el
      then ([Stderr ''Failed to construct elem string\<newline>'',
             Stderr (''Elem string: '' @ c_str ((snprintf_buf el)[65535 := NUL])
                     @ ''\<newline>'')],
            - 1)
      else ([Stdout (c_str (snprintf_buf el) @ ''\<newline>'')], 0))"

text \<open>What the process wrote on standard output and on standard error, and the calls
  it made on the engine.\<close>

fun stdout_of :: "event list \<Rightarrow> string" where
  "stdout_of [] = []"
| "stdout_of (Stdout s # evs) = s @ stdout_of evs"
| "stdout_of (_ # evs) = stdout_of evs"

fun stderr_of :: "event list \<Rightarrow> string" where
  "stderr_of [] = []"
| "stderr_of (Stderr s # evs) = s @ stderr_of evs"
| "stderr_of (_ # evs) = stderr_of evs"

fun calls_of :: "event list \<Rightarrow> engine_call list" where
  "calls_of [] = []"
| "calls_of (Call c # evs) = c # calls_of evs"
| "calls_of (_ # evs) = calls_of evs"

section \<open>The option grammar parser\<close>

definition PROJECT_CMD_CNT :: nat where "PROJECT_CMD_CNT = 10"
definition TYPE_CMD_CNT :: nat where "TYPE_CMD_CNT = 10"
definition COLLECTOR_CMD_CNT :: nat where "COLLECTOR_CMD_CNT = 100"
definition WINDOW_CMD_CNT :: nat where "WINDOW_CMD_CNT = 1024"
definition OPTION_CMD_CNT :: nat where "OPTION_CMD_CNT = 1024"

record window =
  win_start :: "32 word"
  win_end :: "32 word"

text \<open>
  The variables of \<open>main\<close> that the option loop writes, with the globals
  \<open>datasource_id\<close> and \<open>datasource_info\<close>. Each array with its counter is a list: the
  counter is its length.
\<close>

record opts =
  projects :: "string list"
  types :: "string list"
  collectors :: "string list"
  windows :: "window list"
  interface_options :: "string list"
  rib_period :: "32 word"
  blocking :: bool
  record_output_on :: bool
  record_bgpdump_output_on :: bool
  elem_output_on :: bool
  datasource_id :: nat
  datasource_info :: "data_interface_info option"

definition init_opts :: "engine \<Rightarrow> opts" where
  "init_opts e =
     \<lparr>projects = [], types = [], collectors = [], windows = [], interface_options = [],
      rib_period = 0, blocking = False, record_output_on = False,
      record_bgpdump_output_on = False, elem_output_on = False,
      datasource_id = default_if e, datasource_info = if_info e (default_if e)\<rparr>"

text \<open>\<open>strchr(s, ',')\<close>, then \<open>*endp = 0; endp++\<close>: the text before the first comma and
  the text after it; None when there is no comma.\<close>

definition split_comma :: "string \<Rightarrow> (string \<times> string) option" where
  "split_comma s =
     (if CHR '','' \<in> set s
      then Some (takeWhile (\<lambda>c. c \<noteq> CHR '','') s, tl (dropWhile (\<lambda>c. c \<noteq> CHR '','') s))
      else None)"

definition fatal :: "engine \<Rightarrow> string list \<Rightarrow> outcome" where
  "fatal e msgs = (map Stderr msgs @ usage e, Exit (- 1))"

definition cap_msg :: "nat \<Rightarrow> string \<Rightarrow> string" where
  "cap_msg n what =
     ''ERROR: A maximum of '' @ show_int (int n) @ '' '' @ what @ '' can be specified on ''
     @ ''the command line\<newline>''"

text \<open>An option argument handed to \<open>strdup\<close>, \<open>strchr\<close> or \<open>atoi\<close>: NULL is a crash.\<close>

definition with_optarg ::
  "string option \<Rightarrow> (string \<Rightarrow> outcome + opts) \<Rightarrow> outcome + opts" where
  "with_optarg a f = (case a of None \<Rightarrow> Inl ([], Crash) | Some s \<Rightarrow> f s)"

text \<open>
  The \<open>switch (opt)\<close> of the option loop. \<open>Inl\<close> is a path that leaves the process,
  \<open>Inr\<close> the variables after \<open>break\<close>. The cases follow the source: there is a case
  for \<open>?\<close> and for \<open>v\<close> and none for \<open>h\<close>, which takes the default.
\<close>

definition handle_opt ::
  "engine \<Rightarrow> opts \<Rightarrow> char \<Rightarrow> string option \<Rightarrow> char \<Rightarrow> outcome + opts" where
  "handle_opt e st opt optarg optopt =
     (if opt = CHR ''p'' then
        (if length (projects st) = PROJECT_CMD_CNT
         then Inl (fatal e [cap_msg PROJECT_CMD_CNT ''projects''])
         else with_optarg optarg (\<lambda>a. Inr (st\<lparr>projects := projects st @ [a]\<rparr>)))
      else if opt = CHR ''c'' then
        (if length (collectors st) = COLLECTOR_CMD_CNT
         then Inl (fatal e [cap_msg COLLECTOR_CMD_CNT ''collectors''])
         else with_optarg optarg (\<lambda>a. Inr (st\<lparr>collectors := collectors st @ [a]\<rparr>)))
      else if opt = CHR ''t'' then
        (if length (types st) = TYPE_CMD_CNT
         then Inl (fatal e [cap_msg TYPE_CMD_CNT ''types''])
         else with_optarg optarg (\<lambda>a. Inr (st\<lparr>types := types st @ [a]\<rparr>)))
      else if opt = CHR ''w'' then
        (if length (windows st) = WINDOW_CMD_CNT
         then Inl (fatal e [cap_msg WINDOW_CMD_CNT ''windows''])
         else with_optarg optarg (\<lambda>a.
           case split_comma a of
             None \<Rightarrow>
               Inl (fatal e [''ERROR: Malformed time window ('' @ a @ '')\<newline>'',
                             ''ERROR: Expecting start,end\<newline>''])
           | Some (s, en) \<Rightarrow>
               Inr (st\<lparr>windows := windows st
                          @ [\<lparr>win_start = atoi s, win_end = atoi en\<rparr>]\<rparr>)))
      else if opt = CHR ''P'' then
        with_optarg optarg (\<lambda>a. Inr (st\<lparr>rib_period := atoi a\<rparr>))
      else if opt = CHR ''d'' then
        with_optarg optarg (\<lambda>a.
          if if_id_by_name e a = 0
          then Inl (fatal e [''ERROR: Invalid data interface name '' @ [CHR 0x27] @ a
                             @ [CHR 0x27] @ ''\<newline>''])
          else Inr (st\<lparr>datasource_id := if_id_by_name e a,
                       datasource_info := if_info e (if_id_by_name e a)\<rparr>))
      else if opt = CHR ''o'' then
        (if length (interface_options st) = OPTION_CMD_CNT
         then Inl (fatal e [''ERROR: A maximum of '' @ show_int (int OPTION_CMD_CNT)
                            @ '' interface options can be specified\<newline>''])
         else with_optarg optarg
                (\<lambda>a. Inr (st\<lparr>interface_options := interface_options st @ [a]\<rparr>)))
      else if opt = CHR ''b'' then Inr (st\<lparr>blocking := True\<rparr>)
      else if opt = CHR ''r'' then Inr (st\<lparr>record_output_on := True\<rparr>)
      else if opt = CHR ''m'' then Inr (st\<lparr>record_bgpdump_output_on := True\<rparr>)
      else if opt = CHR ''e'' then Inr (st\<lparr>elem_output_on := True\<rparr>)
      else if opt = CHR '':'' then
        Inl (fatal e [''ERROR: Missing option argument for -'' @ [optopt] @ ''\<newline>''])
      else if opt = CHR ''?'' \<or> opt = CHR ''v'' then
        Inl (version_banner e # usage e, Exit 0)
      else Inl (usage e, Exit (- 1)))"

text \<open>
  The test at the head of the loop body: \<open>getopt\<close> advanced \<open>optind\<close> by two and the
  argument it took is missing or looks like a flag.
\<close>

definition missing_arg :: "nat \<Rightarrow> getopt_ret \<Rightarrow> bool" where
  "missing_arg prevoptind g =
     (g_optind g = prevoptind + 2
      \<and> (case g_optarg g of None \<Rightarrow> True | Some a \<Rightarrow> a \<noteq> [] \<and> hd a = CHR ''-''))"

text \<open>The option loop, over the returns of \<open>getopt\<close>; the list ends where \<open>getopt\<close>
  returns -1.\<close>

fun parse_opts :: "engine \<Rightarrow> opts \<Rightarrow> nat \<Rightarrow> getopt_ret list \<Rightarrow> outcome + opts" where
  "parse_opts e st prevoptind [] = Inr st"
| "parse_opts e st prevoptind (g # gs) =
     (case handle_opt e st (if missing_arg prevoptind g then CHR '':'' else g_opt g)
             (g_optarg g) (g_optopt g) of
        Inl out \<Rightarrow> Inl out
      | Inr st' \<Rightarrow> parse_opts e st' (g_optind g) gs)"

section \<open>The interface-option binder\<close>

text \<open>
  The loop over \<open>interface_options\<close> after the option loop, with the final
  \<open>datasource_id\<close> and \<open>datasource_info\<close>. \<open>Inl\<close> leaves the process; \<open>Inr\<close> gives the
  calls made when every entry was applied.
\<close>

fun bind_options ::
  "engine \<Rightarrow> nat \<Rightarrow> data_interface_info option \<Rightarrow> string list \<Rightarrow> outcome + event list" where
  "bind_options e ds_id ds_info [] = Inr []"
| "bind_options e ds_id ds_info (x # xs) =
     (if x \<noteq> [] \<and> hd x = CHR ''?'' then
        (case dump_if_options e ds_id ds_info of
           Inl out \<Rightarrow> Inl out
         | Inr evs \<Rightarrow> Inl (evs @ usage e, Exit 0))
      else case split_comma x of
        None \<Rightarrow>
          Inl (fatal e [''ERROR: Malformed data interface option ('' @ x @ '')\<newline>'',
                        ''ERROR: Expecting <option-name>,<option-value>\<newline>''])
      | Some (n, v) \<Rightarrow>
          (case get_data_interface_option_by_name e ds_id n of
             None \<Rightarrow>
               (case ds_info of
                  None \<Rightarrow> Inl ([], Crash)
                | Some info \<Rightarrow>
                    Inl (fatal e [''ERROR: Invalid option '' @ [CHR 0x27] @ n @ [CHR 0x27]
                                  @ '' for data interface '' @ [CHR 0x27] @ if_name info
                                  @ [CHR 0x27] @ ''\<newline>'']))
           | Some opt \<Rightarrow>
               (case bind_options e ds_id ds_info xs of
                  Inl out \<Rightarrow> Inl (prepend [Call (SetDataInterfaceOption ds_id opt v)] out)
                | Inr evs \<Rightarrow> Inr (Call (SetDataInterfaceOption ds_id opt v) # evs))))"

section \<open>The filter applier and the streaming driver\<close>

definition apply_filters :: "opts \<Rightarrow> event list" where
  "apply_filters st =
     map (\<lambda>p. Call (AddFilter BGPSTREAM_FILTER_TYPE_PROJECT p)) (projects st)
   @ map (\<lambda>c. Call (AddFilter BGPSTREAM_FILTER_TYPE_COLLECTOR c)) (collectors st)
   @ map (\<lambda>t. Call (AddFilter BGPSTREAM_FILTER_TYPE_RECORD_TYPE t)) (types st)
   @ map (\<lambda>w. Call (AddIntervalFilter (win_start w) (win_end w))) (windows st)
   @ (if 0 < sint (rib_period st) then [Call (AddRibPeriodFilter (rib_period st))] else [])
   @ [Call (SetDataInterface (datasource_id st))]
   @ (if blocking st then [Call SetBlocking] else [])"

text \<open>The three calls made both after the loop and at the label \<open>err\<close>.\<close>

definition teardown :: "event list" where
  "teardown = [Call RecordDestroy, Call Stop, Call Destroy]"

text \<open>The inner \<open>while\<close> over the elements of a record: the events, and whether the
  loop ran to the end (False: \<open>print_elem\<close> returned nonzero, \<open>goto err\<close>).\<close>

fun print_elems :: "bgpstream_elem list \<Rightarrow> event list \<times> bool" where
  "print_elems [] = ([], True)"
| "print_elems (el # els) =
     (if snd (print_elem el) \<noteq> 0 then (fst (print_elem el), False)
      else (fst (print_elem el) @ fst (print_elems els), snd (print_elems els)))"

text \<open>The body of the \<open>do\<close> loop after \<open>bgpstream_get_next_record\<close> has returned.\<close>

definition dispatch :: "opts \<Rightarrow> get_next \<Rightarrow> event list \<times> bool" where
  "dispatch st p =
     (let hdr = (if gn_ret p \<noteq> 0 \<and> record_output_on st
                 then print_bs_record (gn_record p) else [])
      in if gn_ret p \<noteq> 0 \<and> status (gn_record p) = BGPSTREAM_RECORD_STATUS_VALID_RECORD
         then
           (let mrt = (if record_bgpdump_output_on st
                       then [Call (RecordPrintMrtData (gn_record p))] else []);
                els = (if elem_output_on st then print_elems (gn_elems p) else ([], True))
            in (hdr @ mrt @ fst els, snd els))
         else (hdr, True))"

text \<open>
  The \<open>do ... while (get_next_ret > 0)\<close> loop with what follows it. The list holds the
  answers of the engine still to come; when it is used up the engine answers 0.
\<close>

fun pull_loop :: "opts \<Rightarrow> get_next list \<Rightarrow> outcome" where
  "pull_loop st [] = (Call GetNextRecord # teardown, Exit 0)"
| "pull_loop st (p # ps) =
     (if \<not> snd (dispatch st p)
      then (Call GetNextRecord # fst (dispatch st p) @ teardown, Exit (- 1))
      else if 0 < gn_ret p
      then prepend (Call GetNextRecord # fst (dispatch st p)) (pull_loop st ps)
      else (Call GetNextRecord # fst (dispatch st p) @ teardown, Exit 0))"

text \<open>\<open>main\<close> from the check of the windows to its end.\<close>

definition run_stream :: "engine \<Rightarrow> opts \<Rightarrow> outcome" where
  "run_stream e st0 =
     (if windows st0 = []
      then fatal e [''ERROR: At least one time window must be specified using -w\<newline>'']
      else
        (let st = (if \<not> record_output_on st0 \<and> \<not> elem_output_on st0
                      \<and> \<not> record_bgpdump_output_on st0
                   then st0\<lparr>record_output_on := True\<rparr> else st0)
         in prepend (apply_filters st)
              (if \<not> record_create_ok e
               then ([Call RecordCreate,
                      Stderr ''ERROR: Could not create BGPStream record\<newline>'',
                      Call Destroy], Exit (- 1))
               else if start_ret e < 0
               then ([Call RecordCreate, Call Start,
                      Stderr ''ERROR: Could not init BGPStream\<newline>''], Exit (- 1))
               else prepend [Call RecordCreate, Call Start] (pull_loop st (pulls e)))))"

text \<open>\<open>main\<close> after \<open>bgpstream_create\<close>, over the returns of \<open>getopt\<close>.\<close>

definition run_opts :: "engine \<Rightarrow> getopt_ret list \<Rightarrow> outcome" where
  "run_opts e gs =
     (if default_if e = 0 then ([], Abort)
      else case parse_opts e (init_opts e) 1 gs of
        Inl out \<Rightarrow> out
      | Inr st \<Rightarrow>
          (case bind_options e (datasource_id st) (datasource_info st)
                  (interface_options st) of
             Inl out \<Rightarrow> out
           | Inr evs \<Rightarrow> prepend evs (run_stream e st)))"

text \<open>\<open>main(argc, argv)\<close>: \<open>argv\<close> with the program's name first.\<close>

definition main :: "engine \<Rightarrow> string list \<Rightarrow> outcome" where
  "main e argv =
     (if \<not> create_ok e
      then ([Call Create, Stderr ''ERROR: Could not create BGPStream instance\<newline>''],
            Exit (- 1))
      else prepend [Call Create] (run_opts e (map snd (getopt_calls argv))))"

section \<open>What the specification says of a yielded record\<close>

text \<open>
  This definition follows the words of the specification, not the code: for a record,
  the header when record mode is on; then, when the status is valid_record, the MRT dump
  when MRT mode is on and one line per element when element mode is on. It is compared
  with \<open>dispatch\<close> and \<open>pull_loop\<close> below.
\<close>

definition spec_record_output :: "opts \<Rightarrow> get_next \<Rightarrow> event list" where
  "spec_record_output st p =
     (if record_output_on st then print_bs_record (gn_record p) else [])
   @ (if status (gn_record p) = BGPSTREAM_RECORD_STATUS_VALID_RECORD
         \<and> record_bgpdump_output_on st
      then [Call (RecordPrintMrtData (gn_record p))] else [])
   @ (if status (gn_record p) = BGPSTREAM_RECORD_STATUS_VALID_RECORD \<and> elem_output_on st
      then map (\<lambda>el. Stdout (c_str (snprintf_buf el) @ ''\<newline>'')) (gn_elems p)
      else [])"

text \<open>The events of a run of pulls that each yield a record.\<close>

definition spec_yielded :: "opts \<Rightarrow> get_next list \<Rightarrow> event list" where
  "spec_yielded st ps = concat (map (\<lambda>p. Call GetNextRecord # spec_record_output st p) ps)"

section \<open>A stub engine\<close>

text \<open>
  The stub engine of the scenarios of the specification: two data interfaces, the second
  with two options, and one valid RIB record with two elements.
\<close>

definition ex_record :: bgpstream_record where
  "ex_record =
     \<lparr>record_time = 1420070450, dump_project = ''routeviews'', dump_collector = ''rrc00'',
      dump_type = BGPSTREAM_RIB, status = BGPSTREAM_RECORD_STATUS_VALID_RECORD,
      dump_time = 1420070400, dump_pos = BGPSTREAM_DUMP_MIDDLE\<rparr>"

definition ex_pull :: get_next where
  "ex_pull =
     \<lparr>gn_ret = 1, gn_record = ex_record,
      gn_elems = [\<lparr>snprintf_ok = True, snprintf_buf = ''E1''\<rparr>,
                  \<lparr>snprintf_ok = True, snprintf_buf = ''E2''\<rparr>]\<rparr>"

definition ex_info :: "nat \<Rightarrow> data_interface_info option" where
  "ex_info i =
     (if i = 1 then Some \<lparr>if_name = ''broker'', if_description = ''Broker''\<rparr>
      else if i = 2 then Some \<lparr>if_name = ''singlefile'', if_description = ''Single file''\<rparr>
      else None)"

definition ex_id_by_name :: "string \<Rightarrow> nat" where
  "ex_id_by_name n = (if n = ''broker'' then 1 else if n = ''singlefile'' then 2 else 0)"

definition ex_options :: "nat \<Rightarrow> data_interface_option list" where
  "ex_options i =
     (if i = 2 then [\<lparr>opt_name = ''rib-file'', opt_description = ''rib mrt file''\<rparr>,
                     \<lparr>opt_name = ''upd-file'', opt_description = ''updates mrt file''\<rparr>]
      else [])"

definition ex_engine :: engine where
  "ex_engine =
     \<lparr>major_version = 1, mid_version = 0, minor_version = 0, create_ok = True,
      default_if = 1, if_ids = [1, 2], if_info = ex_info, if_id_by_name = ex_id_by_name,
      if_options = ex_options, record_create_ok = True, start_ret = 0,
      pulls = [ex_pull]\<rparr>"

text \<open>Variables of \<open>main\<close> with one window and the three output modes on.\<close>

definition ex_opts :: opts where
  "ex_opts =
     \<lparr>projects = [], types = [], collectors = [],
      windows = [\<lparr>win_start = 1, win_end = 2\<rparr>], interface_options = [],
      rib_period = 0, blocking = False, record_output_on = True,
      record_bgpdump_output_on = True, elem_output_on = True,
      datasource_id = 1, datasource_info = ex_info 1\<rparr>"

text \<open>The usage text as the program prints it with the stub engine.\<close>

definition ex_usage_text :: string where
  "ex_usage_text =
     ''usage: bgpreader -w <start,end> [<options>]\<newline>''
   @ ''Available options are:\<newline>''
   @ ''   -d <interface> use the given data interface to find available data\<newline>''
   @ ''                  available data interfaces are:\<newline>''
   @ ''       broker         Broker (default)\<newline>''
   @ ''       singlefile     Single file\<newline>''
   @ ''   -o <option-name,option-value>*\<newline>''
   @ ''                  set an option for the current data interface.\<newline>''
   @ ''                  use '-o ?' to get a list of available options for the current\<newline>''
   @ ''                  data interface. (data interface can be selected using -d)\<newline>''
   @ ''   -p <project>   process records from only the given project (routeviews, ris)*\<newline>''
   @ ''   -c <collector> process records from only the given collector*\<newline>''
   @ ''   -t <type>      process records with only the given type (ribs, updates)*\<newline>''
   @ ''   -w <start,end> process records only within the given time window*\<newline>''
   @ ''   -P <period>    process a rib files every <period> seconds (bgp time)\<newline>''
   @ ''   -b             make blocking requests for BGP records\<newline>''
   @ ''                  allows bgpstream to be used to process data in real-time\<newline>''
   @ ''\<newline>''
   @ ''   -r             print info for each BGP record (default)\<newline>''
   @ ''   -m             print info for each BGP valid record in bgpdump -m format\<newline>''
   @ ''   -e             print info for each element of a valid BGP record\<newline>''
   @ ''\<newline>''
   @ ''   -h             print this help menu\<newline>''
   @ ''* denotes an option that can be given multiple times\<newline>''"

section \<open>The calls of getopt by flag\<close>








section \<open>The record header\<close>

lemma digit_in_digits: "digit n \<in> set ''0123456789''"
  unfolding digit_def by (rule nth_mem) simp

lemma bar_notin_show_nat: "CHR ''|'' \<notin> set (show_nat n)"
proof (induction n rule: show_nat.induct)
  case (1 n)
  have d: "digit n \<noteq> CHR ''|''"
    using digit_in_digits [of n] by auto
  show ?case
  proof (cases "n < 10")
    case True
    then show ?thesis using d by (simp add: show_nat.simps [of n])
  next
    case False
    then show ?thesis using d 1 by (simp add: show_nat.simps [of n])
  qed
qed

lemma count_bar_show_int: "count_list (show_int i) CHR ''|'' = 0"
  by (simp add: show_int_def bar_notin_show_nat count_list_0_iff)

lemma count_bar_dump_type: "count_list (get_dump_type_str t) CHR ''|'' = 0"
  by (cases t) simp_all

lemma count_bar_dump_pos: "count_list (get_dump_pos_str p) CHR ''|'' = 0"
  by (cases p) simp_all

lemma count_bar_status: "count_list (get_record_status_str s) CHR ''|'' = 0"
  by (cases s) simp_all

lemma count_list_app: "count_list (xs @ ys) c = count_list xs c + count_list ys c"
  by (induction xs) auto

text \<open>
  Claim C9, as the code has it. For every record, the header line that
  \<open>print_bs_record\<close> writes is the seven fields record_time, dump_project,
  dump_collector, dump_type, status, dump_time and dump_pos in that order, each followed
  by a bar, and then the newline, whether or not a field is empty; so the last bar stands
  immediately before the newline. The line holds seven bars more than dump_project and
  dump_collector hold themselves: exactly seven when these two strings hold none.
\<close>

theorem print_bs_record_line:
  "stdout_of (print_bs_record r) =
     show_int (record_time r) @ ''|'' @ dump_project r @ ''|'' @ dump_collector r @ ''|''
     @ get_dump_type_str (dump_type r) @ ''|'' @ get_record_status_str (status r) @ ''|''
     @ show_int (dump_time r) @ ''|'' @ get_dump_pos_str (dump_pos r) @ ''|\<newline>''
   \<and> count_list (stdout_of (print_bs_record r)) CHR ''|'' =
       7 + count_list (dump_project r) CHR ''|'' + count_list (dump_collector r) CHR ''|''"
  by (simp add: print_bs_record_def count_list_app count_bar_show_int count_bar_dump_type
      count_bar_dump_pos count_bar_status)

text \<open>
  Claim C9 as stated fails on a record whose project name holds a bar: the header line
  of this record has eight bars, not seven.
\<close>

theorem print_bs_record_eight_bars:
  "count_list (stdout_of (print_bs_record
      \<lparr>record_time = 1, dump_project = ''a|b'', dump_collector = ''rrc00'',
       dump_type = BGPSTREAM_RIB, status = BGPSTREAM_RECORD_STATUS_VALID_RECORD,
       dump_time = 2, dump_pos = BGPSTREAM_DUMP_MIDDLE\<rparr>)) CHR ''|'' = 8"
  by (simp add: print_bs_record_def show_int_def show_nat.simps digit_def)

section \<open>The pull loop\<close>

lemma prepend_simps [simp]:
  "prepend evs (a, b) = (evs @ a, b)"
  "snd (prepend evs out) = snd out"
  "fst (prepend evs out) = evs @ fst out"
  by (simp_all add: prepend_def)

lemma print_elems_ok:
  "\<forall>el\<in>set els. snprintf_ok el \<Longrightarrow>
   print_elems els = (map (\<lambda>el. Stdout (c_str (snprintf_buf el) @ ''\<newline>'')) els, True)"
  by (induction els) (simp_all add: print_elem_def)

lemma print_elems_fail:
  "\<forall>el\<in>set oks. snprintf_ok el \<Longrightarrow> \<not> snprintf_ok bad \<Longrightarrow>
   print_elems (oks @ bad # later) =
     (map (\<lambda>el. Stdout (c_str (snprintf_buf el) @ ''\<newline>'')) oks
      @ [Stderr ''Failed to construct elem string\<newline>'',
         Stderr (''Elem string: '' @ c_str ((snprintf_buf bad)[65535 := NUL]) @ ''\<newline>'')],
      False)"
  by (induction oks) (simp_all add: print_elem_def)

text \<open>On a nonzero return whose elements all serialise, the loop body does what the
  specification says of a yielded record.\<close>

lemma dispatch_ok:
  "gn_ret p \<noteq> 0 \<Longrightarrow> \<forall>el\<in>set (gn_elems p). snprintf_ok el \<Longrightarrow>
   dispatch st p = (spec_record_output st p, True)"
  by (simp add: dispatch_def spec_record_output_def print_elems_ok Let_def)

lemma pull_loop_yielded:
  "\<forall>q\<in>set pre. 0 < gn_ret q \<and> (\<forall>el\<in>set (gn_elems q). snprintf_ok el) \<Longrightarrow>
   pull_loop st (pre @ rest) = prepend (spec_yielded st pre) (pull_loop st rest)"
proof (induction pre)
  case Nil
  show ?case by (simp add: spec_yielded_def prepend_def)
next
  case (Cons q pre)
  then have d: "dispatch st q = (spec_record_output st q, True)"
    by (simp add: dispatch_ok)
  from Cons show ?case
    by (simp add: d spec_yielded_def prepend_def)
qed

text \<open>The string printed after a failed serialisation ends before byte 65,535 of the
  buffer.\<close>

lemma elem_string_bounded:
  assumes "length buf \<le> 65536"
  shows "length (c_str (buf[65535 := NUL])) \<le> 65535"
proof (cases "length buf \<le> 65535")
  case True
  have "length (c_str (buf[65535 := NUL])) \<le> length (buf[65535 := NUL])"
    unfolding c_str_def by (rule length_takeWhile_le)
  with True show ?thesis by simp
next
  case False
  with assms have len: "length buf = 65536" by simp
  let ?b = "buf[65535 := NUL]"
  show ?thesis
  proof (rule ccontr)
    assume "\<not> ?thesis"
    then have lt: "65535 < length (takeWhile (\<lambda>c. c \<noteq> NUL) ?b)"
      by (simp add: c_str_def)
    then have "takeWhile (\<lambda>c. c \<noteq> NUL) ?b ! 65535 \<in> set (takeWhile (\<lambda>c. c \<noteq> NUL) ?b)"
      by (rule nth_mem)
    then have "takeWhile (\<lambda>c. c \<noteq> NUL) ?b ! 65535 \<noteq> NUL"
      by (rule set_takeWhileD [THEN conjunct2])
    moreover have "takeWhile (\<lambda>c. c \<noteq> NUL) ?b ! 65535 = ?b ! 65535"
      using lt by (rule takeWhile_nth)
    moreover have "?b ! 65535 = NUL" using len by simp
    ultimately show False by simp
  qed
qed

text \<open>
  Claim C6. When every pull of the engine yields a record (a positive return) whose
  elements serialise, the run of the loop is, for each record in order: the pull; the
  header if and only if record mode is on, whatever the status; the MRT dump only when
  the status is valid_record and MRT mode is on; the element lines only when the status
  is valid_record and element mode is on; in that order. After the last record come the
  pull that reports exhaustion, the teardown and exit code 0.
\<close>

theorem pull_loop_output:
  assumes "\<forall>p\<in>set ps. 0 < gn_ret p \<and> (\<forall>el\<in>set (gn_elems p). snprintf_ok el)"
  shows "pull_loop st ps =
     (concat (map (\<lambda>p. Call GetNextRecord
          # (if record_output_on st then print_bs_record (gn_record p) else [])
          @ (if status (gn_record p) = BGPSTREAM_RECORD_STATUS_VALID_RECORD
                \<and> record_bgpdump_output_on st
             then [Call (RecordPrintMrtData (gn_record p))] else [])
          @ (if status (gn_record p) = BGPSTREAM_RECORD_STATUS_VALID_RECORD
                \<and> elem_output_on st
             then map (\<lambda>el. Stdout (c_str (snprintf_buf el) @ ''\<newline>'')) (gn_elems p)
             else [])) ps)
      @ [Call GetNextRecord, Call RecordDestroy, Call Stop, Call Destroy], Exit 0)"
  using pull_loop_yielded [OF assms, of st "[]"]
  by (simp add: spec_yielded_def spec_record_output_def teardown_def)

lemmas ex_defs =
  ex_opts_def ex_pull_def ex_record_def ex_engine_def ex_info_def ex_id_by_name_def
  ex_options_def

lemmas print_defs =
  print_bs_record_def show_int_def show_nat.simps digit_def c_str_def NUL_def

text \<open>With the three modes on, a valid record with two elements and then a record of a
  filtered source: header, MRT dump and two element lines, then the header alone.\<close>

theorem pull_loop_output_witness:
  "stdout_of (fst (pull_loop ex_opts
      [ex_pull,
       ex_pull\<lparr>gn_record := ex_record\<lparr>status := BGPSTREAM_RECORD_STATUS_FILTERED_SOURCE\<rparr>\<rparr>])) =
     ''1420070450|routeviews|rrc00|rib|valid_record|1420070400|middle|\<newline>''
     @ ''E1\<newline>'' @ ''E2\<newline>''
     @ ''1420070450|routeviews|rrc00|rib|filtered_source|1420070400|middle|\<newline>''
   \<and> calls_of (fst (pull_loop ex_opts
      [ex_pull,
       ex_pull\<lparr>gn_record := ex_record\<lparr>status := BGPSTREAM_RECORD_STATUS_FILTERED_SOURCE\<rparr>\<rparr>])) =
     [GetNextRecord, RecordPrintMrtData ex_record, GetNextRecord, GetNextRecord,
      RecordDestroy, Stop, Destroy]"
  using pull_loop_output [of "[ex_pull,
       ex_pull\<lparr>gn_record := ex_record\<lparr>status := BGPSTREAM_RECORD_STATUS_FILTERED_SOURCE\<rparr>\<rparr>]"
       ex_opts]
  by (simp add: ex_defs print_defs del: pull_loop.simps)

text \<open>
  Claim C7. When \<open>bgpstream_get_next_record\<close> returns a negative value, after any number
  of yielded records, the loop body still runs on the record handle: the header is
  printed when record mode is on and, when the status field reads valid_record, the MRT
  dump and the element lines of the enabled modes; only then does the loop end, the
  teardown run and \<open>main\<close> return 0. Later answers of the engine are not asked for.
\<close>

theorem negative_return_dispatched:
  assumes "\<forall>q\<in>set pre. 0 < gn_ret q \<and> (\<forall>el\<in>set (gn_elems q). snprintf_ok el)"
    and "gn_ret p < 0" and "\<forall>el\<in>set (gn_elems p). snprintf_ok el"
  shows "pull_loop st (pre @ p # ps) =
     (spec_yielded st pre
      @ Call GetNextRecord
      # (if record_output_on st then print_bs_record (gn_record p) else [])
      @ (if status (gn_record p) = BGPSTREAM_RECORD_STATUS_VALID_RECORD
         then (if record_bgpdump_output_on st
               then [Call (RecordPrintMrtData (gn_record p))] else [])
            @ (if elem_output_on st
               then map (\<lambda>el. Stdout (c_str (snprintf_buf el) @ ''\<newline>'')) (gn_elems p)
               else [])
         else [])
      @ [Call RecordDestroy, Call Stop, Call Destroy], Exit 0)"
proof -
  from assms(2) have nz: "gn_ret p \<noteq> 0" by simp
  have d: "dispatch st p = (spec_record_output st p, True)"
    using nz assms(3) by (rule dispatch_ok)
  have "pull_loop st (p # ps) =
          (Call GetNextRecord # spec_record_output st p @ teardown, Exit 0)"
    using assms(2) by (simp add: d)
  then show ?thesis
    using pull_loop_yielded [OF assms(1), of st "p # ps"]
    by (simp add: spec_record_output_def teardown_def)
qed

text \<open>A pull that returns -1 and leaves a valid record in the handle, with the three
  modes on: the record is printed in full before the teardown, and the exit code is 0.\<close>

theorem negative_return_dispatched_witness:
  "stdout_of (fst (pull_loop ex_opts [ex_pull\<lparr>gn_ret := - 1\<rparr>, ex_pull])) =
     ''1420070450|routeviews|rrc00|rib|valid_record|1420070400|middle|\<newline>''
     @ ''E1\<newline>'' @ ''E2\<newline>''
   \<and> calls_of (fst (pull_loop ex_opts [ex_pull\<lparr>gn_ret := - 1\<rparr>, ex_pull])) =
     [GetNextRecord, RecordPrintMrtData ex_record, RecordDestroy, Stop, Destroy]
   \<and> snd (pull_loop ex_opts [ex_pull\<lparr>gn_ret := - 1\<rparr>, ex_pull]) = Exit 0"
proof -
  have p0: "\<forall>q\<in>set ([]::get_next list).
      0 < gn_ret q \<and> (\<forall>el\<in>set (gn_elems q). snprintf_ok el)"
    by simp
  have p1: "gn_ret (ex_pull\<lparr>gn_ret := - 1\<rparr>) < 0"
    by (simp add: ex_pull_def)
  have p2: "\<forall>el\<in>set (gn_elems (ex_pull\<lparr>gn_ret := - 1\<rparr>)). snprintf_ok el"
    by (simp add: ex_pull_def)
  note h = negative_return_dispatched [OF p0 p1 p2, of ex_opts "[ex_pull]"]
  show ?thesis
    using h by (simp add: ex_defs print_defs spec_yielded_def del: pull_loop.simps)
qed

text \<open>
  Claim C8. When, after any number of yielded records, the loop body runs on a valid
  record with element mode on and \<open>bgpstream_elem_snprintf\<close> returns NULL for one of its
  elements (the earlier ones having been printed), the program writes
  \<open>Failed to construct elem string\<close> on standard error, then the line
  \<open>Elem string: \<close> with the buffer cut at byte 65,535, then destroys the record, stops
  and destroys the engine, and returns -1. No later element or record is read.
\<close>

theorem elem_failure_fatal:
  assumes "\<forall>q\<in>set pre. 0 < gn_ret q \<and> (\<forall>el\<in>set (gn_elems q). snprintf_ok el)"
    and "gn_ret p \<noteq> 0"
    and "status (gn_record p) = BGPSTREAM_RECORD_STATUS_VALID_RECORD"
    and "elem_output_on st"
    and "gn_elems p = oks @ bad # later"
    and "\<forall>el\<in>set oks. snprintf_ok el" and "\<not> snprintf_ok bad"
  shows "pull_loop st (pre @ p # ps) =
     (spec_yielded st pre
      @ Call GetNextRecord
      # (if record_output_on st then print_bs_record (gn_record p) else [])
      @ (if record_bgpdump_output_on st then [Call (RecordPrintMrtData (gn_record p))] else [])
      @ map (\<lambda>el. Stdout (c_str (snprintf_buf el) @ ''\<newline>'')) oks
      @ [Stderr ''Failed to construct elem string\<newline>'',
         Stderr (''Elem string: '' @ c_str ((snprintf_buf bad)[65535 := NUL]) @ ''\<newline>''),
         Call RecordDestroy, Call Stop, Call Destroy], Exit (- 1))"
proof -
  have e: "print_elems (gn_elems p) =
     (map (\<lambda>el. Stdout (c_str (snprintf_buf el) @ ''\<newline>'')) oks
      @ [Stderr ''Failed to construct elem string\<newline>'',
         Stderr (''Elem string: '' @ c_str ((snprintf_buf bad)[65535 := NUL]) @ ''\<newline>'')],
      False)"
    unfolding assms(5) using assms(6,7) by (rule print_elems_fail)
  have d: "dispatch st p =
     ((if record_output_on st then print_bs_record (gn_record p) else [])
      @ (if record_bgpdump_output_on st then [Call (RecordPrintMrtData (gn_record p))] else [])
      @ map (\<lambda>el. Stdout (c_str (snprintf_buf el) @ ''\<newline>'')) oks
      @ [Stderr ''Failed to construct elem string\<newline>'',
         Stderr (''Elem string: '' @ c_str ((snprintf_buf bad)[65535 := NUL]) @ ''\<newline>'')],
      False)"
    using assms(2,3,4) by (simp add: dispatch_def e Let_def)
  show ?thesis
    using pull_loop_yielded [OF assms(1), of st "p # ps"]
    by (simp add: d teardown_def)
qed

text \<open>A valid record whose second element fails to serialise, leaving \<open>E2\<close> and a NUL
  in the buffer: the first element is printed, both diagnostic lines are written, the
  three teardown calls are made and the exit code is -1.\<close>

theorem elem_failure_fatal_witness:
  "pull_loop (ex_opts\<lparr>record_output_on := False, record_bgpdump_output_on := False\<rparr>)
     [ex_pull\<lparr>gn_elems := [\<lparr>snprintf_ok = True, snprintf_buf = ''E1''\<rparr>,
                             \<lparr>snprintf_ok = False, snprintf_buf = ''E2'' @ [NUL] @ ''xyz''\<rparr>,
                             \<lparr>snprintf_ok = True, snprintf_buf = ''E3''\<rparr>]\<rparr>,
      ex_pull] =
     ([Call GetNextRecord, Stdout ''E1\<newline>'',
       Stderr ''Failed to construct elem string\<newline>'',
       Stderr ''Elem string: E2\<newline>'',
       Call RecordDestroy, Call Stop, Call Destroy], Exit (- 1))"
  using elem_failure_fatal [of "[]"
      "ex_pull\<lparr>gn_elems := [\<lparr>snprintf_ok = True, snprintf_buf = ''E1''\<rparr>,
                             \<lparr>snprintf_ok = False, snprintf_buf = ''E2'' @ [NUL] @ ''xyz''\<rparr>,
                             \<lparr>snprintf_ok = True, snprintf_buf = ''E3''\<rparr>]\<rparr>"
      "ex_opts\<lparr>record_output_on := False, record_bgpdump_output_on := False\<rparr>"
      "[\<lparr>snprintf_ok = True, snprintf_buf = ''E1''\<rparr>]"
      "\<lparr>snprintf_ok = False, snprintf_buf = ''E2'' @ [NUL] @ ''xyz''\<rparr>"
      "[\<lparr>snprintf_ok = True, snprintf_buf = ''E3''\<rparr>]" "[ex_pull]"]
  by (simp add: ex_defs print_defs spec_yielded_def del: pull_loop.simps)

section \<open>The option loop\<close>

lemmas run_defs =
  main_def run_opts_def run_stream_def handle_opt_def missing_arg_def split_comma_def
  atoi_def strtol10_def isspace_def isdigit_def digit_val_def optstring_def init_opts_def
  apply_filters_def with_optarg_def fatal_def Let_def getopt_calls_def nonoption_def
  PROJECT_CMD_CNT_def TYPE_CMD_CNT_def COLLECTOR_CMD_CNT_def WINDOW_CMD_CNT_def
  OPTION_CMD_CNT_def teardown_def

lemma optind_after_simps [simp]:
  "optind_after i [] = i"
  "optind_after i (g # gs) = optind_after (g_optind g) gs"
  by (simp_all add: optind_after_def)

lemma parse_opts_append:
  "parse_opts e st i (xs @ ys) =
     (case parse_opts e st i xs of
        Inl out \<Rightarrow> Inl out
      | Inr st' \<Rightarrow> parse_opts e st' (optind_after i xs) ys)"
  by (induction xs arbitrary: st i) (simp_all split: sum.splits)

lemma stderr_of_append: "stderr_of (xs @ ys) = stderr_of xs @ stderr_of ys"
  by (induction xs rule: stderr_of.induct) simp_all

lemma stdout_of_append: "stdout_of (xs @ ys) = stdout_of xs @ stdout_of ys"
  by (induction xs rule: stdout_of.induct) simp_all

lemma calls_of_append: "calls_of (xs @ ys) = calls_of xs @ calls_of ys"
  by (induction xs rule: calls_of.induct) simp_all

lemma stdout_data_if_lines: "stdout_of (concat (map (data_if_line e) xs)) = []"
  by (induction xs) (simp_all add: stdout_of_append data_if_line_def split: option.splits)

lemma stdout_data_if_usage: "stdout_of (data_if_usage e) = []"
  by (simp add: data_if_usage_def stdout_data_if_lines)

lemma pad15_eval:
  "pad15 ''broker'' = ''broker         ''"
  "pad15 ''singlefile'' = ''singlefile     ''"
  "pad15 ''rib-file'' = ''rib-file       ''"
  "pad15 ''upd-file'' = ''upd-file       ''"
  by (simp_all add: pad15_def numeral_eq_Suc)

lemma ex_usage: "stderr_of (usage ex_engine) = ex_usage_text"
  by (simp add: usage_def data_if_usage_def data_if_line_def ex_engine_def ex_info_def
      pad15_eval usage_head_def usage_tail_def ex_usage_text_def)

lemma lookup_qmark: "opt_lookup optstring CHR ''?'' = Some False"
  by (simp add: optstring_def)

lemma scan_qmark:
  "(c, g) \<in> set (getopt_scan i oo cs rest) \<Longrightarrow>
   opt_lookup optstring c = None \<or> c = CHR '':'' \<or> c = CHR '';'' \<or> c = CHR ''?'' \<Longrightarrow>
   g_opt g = CHR ''?'' \<and> g_optarg g = None"
proof (induction i oo cs rest rule: getopt_scan.induct)
  case (1 i oo)
  then show ?case by simp
next
  case (2 i oo a rest)
  then show ?case by (simp split: if_splits)
next
  case (3 i oo c' cs rest)
  let ?k = "if c' = CHR '':'' \<or> c' = CHR '';'' then None else opt_lookup optstring c'"
  let ?i' = "if cs = [] then i + 1 else i"
  have mem: "(c, g) \<in> set (getopt_scan i oo (c' # cs) rest)" by fact
  have qm: "opt_lookup optstring c = None \<or> c = CHR '':'' \<or> c = CHR '';'' \<or> c = CHR ''?''"
    by fact
  show ?case
  proof (cases ?k)
    case None
    have "getopt_scan i oo (c' # cs) rest =
        (c', \<lparr>g_opt = CHR ''?'', g_optarg = None, g_optind = ?i', g_optopt = c'\<rparr>)
        # getopt_scan ?i' c' cs rest"
      by (simp only: getopt_scan.simps Let_def None option.case)
    with mem have "(c, g) = (c', \<lparr>g_opt = CHR ''?'', g_optarg = None, g_optind = ?i',
        g_optopt = c'\<rparr>) \<or> (c, g) \<in> set (getopt_scan ?i' c' cs rest)"
      by simp
    then show ?thesis
    proof
      assume "(c, g) = (c', \<lparr>g_opt = CHR ''?'', g_optarg = None, g_optind = ?i',
        g_optopt = c'\<rparr>)"
      then show ?thesis by simp
    next
      assume "(c, g) \<in> set (getopt_scan ?i' c' cs rest)"
      with "3.IH"(1) [OF refl None] qm show ?thesis by blast
    qed
  next
    case (Some b)
    then have known: "c' \<noteq> CHR '':''" "c' \<noteq> CHR '';''" "opt_lookup optstring c' = Some b"
      by (simp_all split: if_splits)
    show ?thesis
    proof (cases b)
      case False
      then have bF: "b = False" by simp
      have "getopt_scan i oo (c' # cs) rest =
          (c', \<lparr>g_opt = c', g_optarg = None, g_optind = ?i', g_optopt = oo\<rparr>)
          # getopt_scan ?i' oo cs rest"
        by (simp add: Let_def Some bF)
      with mem have "(c, g) = (c', \<lparr>g_opt = c', g_optarg = None, g_optind = ?i',
          g_optopt = oo\<rparr>) \<or> (c, g) \<in> set (getopt_scan ?i' oo cs rest)"
        by simp
      then show ?thesis
      proof
        assume a: "(c, g) = (c', \<lparr>g_opt = c', g_optarg = None, g_optind = ?i',
          g_optopt = oo\<rparr>)"
        with qm known False have "c' = CHR ''?''" by auto
        with a show ?thesis by simp
      next
        assume "(c, g) \<in> set (getopt_scan ?i' oo cs rest)"
        with "3.IH"(4) [OF refl Some bF] qm show ?thesis by blast
      qed
    next
      case True
      then have bT: "b = True" by simp
      have nq: "c' \<noteq> CHR ''?''"
        using known True lookup_qmark by auto
      show ?thesis
      proof (cases "cs = []")
        case cs: False
        have "getopt_scan i oo (c' # cs) rest =
            (c', \<lparr>g_opt = c', g_optarg = Some cs, g_optind = i + 1, g_optopt = oo\<rparr>)
            # getopt_scan (i + 1) oo [] rest"
          using cs by (simp add: Let_def Some bT)
        with mem have "(c, g) = (c', \<lparr>g_opt = c', g_optarg = Some cs, g_optind = i + 1,
            g_optopt = oo\<rparr>) \<or> (c, g) \<in> set (getopt_scan (i + 1) oo [] rest)"
          by simp
        then show ?thesis
        proof
          assume "(c, g) = (c', \<lparr>g_opt = c', g_optarg = Some cs, g_optind = i + 1,
            g_optopt = oo\<rparr>)"
          with qm known True nq show ?thesis by auto
        next
          assume "(c, g) \<in> set (getopt_scan (i + 1) oo [] rest)"
          with "3.IH"(2) [OF refl Some bT cs] qm show ?thesis by blast
        qed
      next
        case cs: True
        show ?thesis
        proof (cases rest)
          case Nil
          have "getopt_scan i oo (c' # cs) rest =
              [(c', \<lparr>g_opt = CHR ''?'', g_optarg = None, g_optind = i + 1, g_optopt = c'\<rparr>)]"
            using cs Nil by (simp add: Let_def Some bT)
          with mem show ?thesis by simp
        next
          case (Cons b' rest')
          have "getopt_scan i oo (c' # cs) rest =
              (c', \<lparr>g_opt = c', g_optarg = Some b', g_optind = i + 2, g_optopt = oo\<rparr>)
              # getopt_scan (i + 2) oo [] rest'"
            using cs Cons by (simp add: Let_def Some bT)
          with mem have "(c, g) = (c', \<lparr>g_opt = c', g_optarg = Some b', g_optind = i + 2,
              g_optopt = oo\<rparr>) \<or> (c, g) \<in> set (getopt_scan (i + 2) oo [] rest')"
            by simp
          then show ?thesis
          proof
            assume "(c, g) = (c', \<lparr>g_opt = c', g_optarg = Some b', g_optind = i + 2,
              g_optopt = oo\<rparr>)"
            with qm known True nq show ?thesis by auto
          next
            assume m: "(c, g) \<in> set (getopt_scan (i + 2) oo [] rest')"
            have ncs: "\<not> cs \<noteq> []" using cs by simp
            from "3.IH"(3) [OF refl Some bT ncs Cons m qm] show ?thesis .
          qed
        qed
      qed
    qed
  qed
qed

lemma handle_qmark:
  "handle_opt e st CHR ''?'' a oo = Inl (version_banner e # usage e, Exit 0)"
  by (simp add: handle_opt_def)

lemma stderr_usage:
  "stderr_of (usage e) = usage_head @ stderr_of (data_if_usage e) @ usage_tail"
  by (simp add: usage_def stderr_of_append)

lemma stdout_usage: "stdout_of (usage e) = []"
  by (simp add: usage_def stdout_of_append stdout_data_if_usage)

lemma calls_data_if_lines: "calls_of (concat (map (data_if_line e) xs)) = []"
  by (induction xs) (simp_all add: calls_of_append data_if_line_def split: option.splits)

lemma calls_usage: "calls_of (usage e) = []"
  by (simp add: usage_def calls_of_append data_if_usage_def calls_data_if_lines)

lemma reach_qmark:
  assumes d: "default_if e \<noteq> 0"
    and s: "getopt_calls argv = pre @ (c, g) # post"
    and c: "opt_lookup optstring c = None \<or> c = CHR '':'' \<or> c = CHR '';'' \<or> c = CHR ''?''"
    and p: "parse_opts e (init_opts e) 1 (map snd pre) = Inr st"
    and m: "\<not> missing_arg (optind_after 1 (map snd pre)) g"
  shows "run_opts e (map snd (getopt_calls argv)) = (version_banner e # usage e, Exit 0)"
proof -
  have "(c, g) \<in> set (getopt_scan 1 (CHR 0x00) [] (tl argv))"
    using s by (simp add: getopt_calls_def)
  from scan_qmark [OF this c] have g: "g_opt g = CHR ''?''"
    by simp
  have "parse_opts e (init_opts e) 1 (map snd (pre @ (c, g) # post)) =
          Inl (version_banner e # usage e, Exit 0)"
    using p m g by (simp add: parse_opts_append handle_qmark)
  then show ?thesis
    using d s by (simp add: run_opts_def)
qed

lemma banner_usage_text:
  "stderr_of (version_banner e # usage e) =
     ''bgpreader version '' @ show_int (major_version e) @ ''.'' @ show_int (mid_version e)
     @ ''.'' @ show_int (minor_version e) @ ''\<newline>''
     @ usage_head @ stderr_of (data_if_usage e) @ usage_tail"
  by (simp add: version_banner_def stderr_usage)

text \<open>
  Claim C1, on the code. With a stub engine whose \<open>start\<close> returns -1, the run of
  \<open>bgpreader -w 1,2\<close> writes the diagnostic and returns -1, and its last call on the
  engine is \<open>start\<close>: the record is not destroyed, the engine is neither stopped nor
  destroyed.
\<close>

theorem start_failure_no_teardown:
  "main (ex_engine\<lparr>start_ret := - 1\<rparr>) [''bgpreader'', ''-w'', ''1,2''] =
     ([Call Create, Call (AddIntervalFilter 1 2), Call (SetDataInterface 1),
       Call RecordCreate, Call Start, Stderr ''ERROR: Could not init BGPStream\<newline>''],
      Exit (- 1))"
  by (simp add: run_defs ex_defs)

text \<open>
  Claim C2, as the code has it. When the option loop reaches a flag character that is not
  in the option string, every earlier call of \<open>getopt\<close> having been handled without
  leaving the process, and the test at the head of the loop body does not take the call
  for a missing argument (it does when \<open>getopt\<close> has moved \<open>optind\<close> forward by
  exactly two, skipping a word that is not an option), the program prints the version
  banner and the usage text on standard error, nothing on standard output, and exits
  with code 0.
\<close>

theorem unknown_flag_exit_0:
  assumes "create_ok e" and "default_if e \<noteq> 0"
    and "getopt_calls argv = pre @ (c, g) # post"
    and "opt_lookup optstring c = None \<or> c = CHR '':'' \<or> c = CHR '';''"
    and "parse_opts e (init_opts e) 1 (map snd pre) = Inr st"
    and "\<not> missing_arg (optind_after 1 (map snd pre)) g"
  shows "main e argv = (Call Create # version_banner e # usage e, Exit 0)
     \<and> stderr_of (fst (main e argv)) =
         ''bgpreader version '' @ show_int (major_version e) @ ''.''
         @ show_int (mid_version e) @ ''.'' @ show_int (minor_version e) @ ''\<newline>''
         @ usage_head @ stderr_of (data_if_usage e) @ usage_tail
     \<and> stdout_of (fst (main e argv)) = []"
proof -
  from assms(4)
  have "opt_lookup optstring c = None \<or> c = CHR '':'' \<or> c = CHR '';'' \<or> c = CHR ''?''"
    by blast
  from reach_qmark [OF assms(2,3) this assms(5,6)] assms(1)
  have m: "main e argv = (Call Create # version_banner e # usage e, Exit 0)"
    by (simp add: main_def)
  show ?thesis
    unfolding m using banner_usage_text [of e] stdout_usage [of e]
    by (simp add: version_banner_def)
qed

text \<open>The unknown flag \<open>x\<close> in \<open>bgpreader -b foo bar -x -p ris\<close>: \<open>getopt\<close> skips
  the two words and moves \<open>optind\<close> from 2 to 5.\<close>

theorem unknown_flag_exit_0_witness:
  "stderr_of (fst (main ex_engine [''bgpreader'', ''-b'', ''foo'', ''bar'', ''-x'', ''-p'', ''ris''])) =
     ''bgpreader version 1.0.0\<newline>'' @ ex_usage_text
   \<and> stdout_of (fst (main ex_engine
         [''bgpreader'', ''-b'', ''foo'', ''bar'', ''-x'', ''-p'', ''ris''])) = []
   \<and> calls_of (fst (main ex_engine
         [''bgpreader'', ''-b'', ''foo'', ''bar'', ''-x'', ''-p'', ''ris''])) = [Create]
   \<and> snd (main ex_engine [''bgpreader'', ''-b'', ''foo'', ''bar'', ''-x'', ''-p'', ''ris'']) = Exit 0"
proof -
  let ?argv = "[''bgpreader'', ''-b'', ''foo'', ''bar'', ''-x'', ''-p'', ''ris'']"
  let ?g = "\<lparr>g_opt = CHR ''?'', g_optarg = None, g_optind = 5, g_optopt = CHR ''x''\<rparr>"
  have a: "create_ok ex_engine" and b: "default_if ex_engine \<noteq> 0"
    by (simp_all add: ex_engine_def)
  have c: "getopt_calls ?argv =
      [(CHR ''b'', \<lparr>g_opt = CHR ''b'', g_optarg = None, g_optind = 2, g_optopt = CHR 0x00\<rparr>)]
      @ (CHR ''x'', ?g)
      # [(CHR ''p'', \<lparr>g_opt = CHR ''p'', g_optarg = Some ''ris'', g_optind = 7,
                      g_optopt = CHR ''x''\<rparr>)]"
    by (simp add: getopt_calls_def optstring_def nonoption_def)
  have d: "opt_lookup optstring CHR ''x'' = None \<or> CHR ''x'' = CHR '':'' \<or> CHR ''x'' = CHR '';''"
    by (simp add: optstring_def)
  have e: "parse_opts ex_engine (init_opts ex_engine) 1
      (map snd [(CHR ''b'', \<lparr>g_opt = CHR ''b'', g_optarg = None, g_optind = 2,
                             g_optopt = CHR 0x00\<rparr>)]) =
      Inr ((init_opts ex_engine)\<lparr>blocking := True\<rparr>)"
    by (simp add: handle_opt_def missing_arg_def)
  have f: "\<not> missing_arg (optind_after 1
      (map snd [(CHR ''b'', \<lparr>g_opt = CHR ''b'', g_optarg = None, g_optind = 2,
                             g_optopt = CHR 0x00\<rparr>)])) ?g"
    by (simp add: missing_arg_def)
  note h = unknown_flag_exit_0 [OF a b c d e f]
  have v: "stderr_of [version_banner ex_engine] = ''bgpreader version 1.0.0\<newline>''"
    by (simp add: version_banner_def ex_engine_def show_int_def show_nat.simps digit_def)
  show ?thesis
    using h [THEN conjunct1] v ex_usage stdout_usage [of ex_engine] calls_usage [of ex_engine]
    by (simp add: version_banner_def)
qed

text \<open>
  Claim C2 as stated fails on \<open>bgpreader -x\<close>: the exit code is 0, not -1. It fails
  in another way on \<open>bgpreader foo -x\<close>, where \<open>getopt\<close> skips \<open>foo\<close> and moves
  \<open>optind\<close> from 1 to 3: the look-ahead test takes the flag for a missing argument, and
  the program prints that error and the usage text, without the version banner.
\<close>

theorem unknown_flag_counterexample:
  "main ex_engine [''bgpreader'', ''-x''] =
     (Call Create # version_banner ex_engine # usage ex_engine, Exit 0)
   \<and> snd (main ex_engine [''bgpreader'', ''-x'']) \<noteq> Exit (- 1)
   \<and> main ex_engine [''bgpreader'', ''foo'', ''-x''] =
     (Call Create # Stderr ''ERROR: Missing option argument for -x\<newline>''
        # usage ex_engine, Exit (- 1))"
  by (simp add: run_defs ex_defs)

text \<open>
  Claim C3, as the code has it. When the option loop reaches the flag \<open>-?\<close>, every
  earlier call of \<open>getopt\<close> having been handled without leaving the process, and the
  test at the head of the loop body does not take the call for a missing argument (it
  does when \<open>getopt\<close> has moved \<open>optind\<close> forward by exactly two, skipping a word that
  is not an option), the program prints the version banner and the usage text on standard
  error, nothing on standard output, and exits with code 0. (Nothing is said here of
  \<open>-h\<close>.)
\<close>

theorem help_flag_exit_0:
  assumes "create_ok e" and "default_if e \<noteq> 0"
    and "getopt_calls argv = pre @ (CHR ''?'', g) # post"
    and "parse_opts e (init_opts e) 1 (map snd pre) = Inr st"
    and "\<not> missing_arg (optind_after 1 (map snd pre)) g"
  shows "main e argv = (Call Create # version_banner e # usage e, Exit 0)
     \<and> stderr_of (fst (main e argv)) =
         ''bgpreader version '' @ show_int (major_version e) @ ''.''
         @ show_int (mid_version e) @ ''.'' @ show_int (minor_version e) @ ''\<newline>''
         @ usage_head @ stderr_of (data_if_usage e) @ usage_tail
     \<and> stdout_of (fst (main e argv)) = []"
proof -
  have "opt_lookup optstring CHR ''?'' = None \<or> CHR ''?'' = CHR '':'' \<or> CHR ''?'' = CHR '';''
      \<or> CHR ''?'' = CHR ''?''"
    by simp
  from reach_qmark [OF assms(2,3) this assms(4,5)] assms(1)
  have m: "main e argv = (Call Create # version_banner e # usage e, Exit 0)"
    by (simp add: main_def)
  show ?thesis
    unfolding m using banner_usage_text [of e] stdout_usage [of e]
    by (simp add: version_banner_def)
qed

text \<open>The flag \<open>-?\<close> after a window in \<open>bgpreader -w 1,2 -?\<close>.\<close>

theorem help_flag_exit_0_witness:
  "stderr_of (fst (main ex_engine [''bgpreader'', ''-w'', ''1,2'', ''-?''])) =
     ''bgpreader version 1.0.0\<newline>'' @ ex_usage_text
   \<and> stdout_of (fst (main ex_engine [''bgpreader'', ''-w'', ''1,2'', ''-?''])) = []
   \<and> calls_of (fst (main ex_engine [''bgpreader'', ''-w'', ''1,2'', ''-?''])) = [Create]
   \<and> snd (main ex_engine [''bgpreader'', ''-w'', ''1,2'', ''-?'']) = Exit 0"
proof -
  let ?g = "\<lparr>g_opt = CHR ''?'', g_optarg = None, g_optind = 4, g_optopt = CHR 0x00\<rparr>"
  have a: "create_ok ex_engine" and b: "default_if ex_engine \<noteq> 0"
    by (simp_all add: ex_engine_def)
  have c: "getopt_calls [''bgpreader'', ''-w'', ''1,2'', ''-?''] =
      [(CHR ''w'', \<lparr>g_opt = CHR ''w'', g_optarg = Some ''1,2'', g_optind = 3,
                    g_optopt = CHR 0x00\<rparr>)]
      @ (CHR ''?'', ?g) # []"
    by (simp add: getopt_calls_def optstring_def nonoption_def)
  have e: "parse_opts ex_engine (init_opts ex_engine) 1
      (map snd [(CHR ''w'', \<lparr>g_opt = CHR ''w'', g_optarg = Some ''1,2'', g_optind = 3,
                             g_optopt = CHR 0x00\<rparr>)]) =
      Inr ((init_opts ex_engine)\<lparr>windows := [\<lparr>win_start = 1, win_end = 2\<rparr>]\<rparr>)"
    by (simp add: run_defs)
  have f: "\<not> missing_arg (optind_after 1
      (map snd [(CHR ''w'', \<lparr>g_opt = CHR ''w'', g_optarg = Some ''1,2'', g_optind = 3,
                             g_optopt = CHR 0x00\<rparr>)])) ?g"
    by (simp add: missing_arg_def)
  note h = help_flag_exit_0 [OF a b c e f]
  have v: "stderr_of [version_banner ex_engine] = ''bgpreader version 1.0.0\<newline>''"
    by (simp add: version_banner_def ex_engine_def show_int_def show_nat.simps digit_def)
  show ?thesis
    using h [THEN conjunct1] v ex_usage stdout_usage [of ex_engine] calls_usage [of ex_engine]
    by (simp add: version_banner_def)
qed

text \<open>
  Claim C3 as stated fails on \<open>bgpreader -h\<close>: \<open>h\<close> is in the option string but the
  \<open>switch\<close> has no case for it, so the default case prints the usage text alone, without
  the version banner, and exits with -1. It also fails on \<open>bgpreader -w 1 -?\<close>, where the
  malformed window ends the run with -1 before \<open>-?\<close> is read, and on
  \<open>bgpreader foo -?\<close>, where \<open>getopt\<close> skips \<open>foo\<close> and the look-ahead test takes
  \<open>-?\<close> for a missing argument.
\<close>

theorem help_flag_counterexample:
  "main ex_engine [''bgpreader'', ''-h''] = (Call Create # usage ex_engine, Exit (- 1))
   \<and> version_banner ex_engine \<notin> set (usage ex_engine)
   \<and> snd (main ex_engine [''bgpreader'', ''-w'', ''1'', ''-?'']) = Exit (- 1)
   \<and> main ex_engine [''bgpreader'', ''foo'', ''-?''] =
     (Call Create # Stderr (''ERROR: Missing option argument for -'' @ [CHR 0x00] @ ''\<newline>'')
        # usage ex_engine, Exit (- 1))"
  by (simp add: run_defs ex_defs usage_def data_if_usage_def data_if_line_def
      version_banner_def usage_head_def usage_tail_def)

section \<open>Time windows\<close>

lemma digits_val_nodigit: "\<forall>c\<in>set r. \<not> isdigit c \<Longrightarrow> digits_val acc r = acc"
  by (cases r) simp_all

lemma atoi_nodigit:
  assumes "\<forall>c\<in>set s. \<not> isdigit c"
  shows "atoi s = 0"
proof -
  let ?t = "dropWhile isspace s"
  have t: "\<forall>c\<in>set ?t. \<not> isdigit c"
    using assms set_dropWhileD by fastforce
  have "strtol10 s = 0"
  proof (cases ?t)
    case Nil
    then show ?thesis by (simp add: strtol10_def Let_def del: dropWhile_eq_Nil_conv)
  next
    case (Cons c r)
    with t have r: "\<forall>c\<in>set r. \<not> isdigit c" and tt: "\<forall>c\<in>set (c # r). \<not> isdigit c"
      by simp_all
    show ?thesis
      using Cons digits_val_nodigit [OF r, of 0] digits_val_nodigit [OF tt, of 0]
      by (simp add: strtol10_def Let_def)
  qed
  then show ?thesis by (simp add: atoi_def)
qed

lemma digit_val_digit: "digit_val (digit n) = n mod 10"
proof -
  have "n mod 10 = 0 \<or> n mod 10 = 1 \<or> n mod 10 = 2 \<or> n mod 10 = 3 \<or> n mod 10 = 4
      \<or> n mod 10 = 5 \<or> n mod 10 = 6 \<or> n mod 10 = 7 \<or> n mod 10 = 8 \<or> n mod 10 = 9"
    by arith
  then show ?thesis
    by (elim disjE) (simp_all add: digit_val_def digit_def)
qed

lemma isdigit_digit: "isdigit (digit n)"
  using digit_in_digits [of n] by (simp add: isdigit_def)

lemma digits_val_append:
  "\<forall>c\<in>set xs. isdigit c \<Longrightarrow> digits_val acc (xs @ ys) = digits_val (digits_val acc xs) ys"
  by (induction xs arbitrary: acc) simp_all

lemma isdigit_show_nat: "\<forall>c\<in>set (show_nat n). isdigit c"
proof (induction n rule: show_nat.induct)
  case (1 n)
  show ?case
  proof (cases "n < 10")
    case True
    then show ?thesis by (simp add: show_nat.simps [of n] isdigit_digit)
  next
    case False
    then show ?thesis using 1 by (simp add: show_nat.simps [of n] isdigit_digit)
  qed
qed

lemma digits_val_show_nat: "digits_val acc (show_nat n) = acc * 10 ^ length (show_nat n) + n"
proof (induction n arbitrary: acc rule: show_nat.induct)
  case (1 n)
  show ?case
  proof (cases "n < 10")
    case True
    then show ?thesis
      by (simp add: show_nat.simps [of n] isdigit_digit digit_val_digit)
  next
    case False
    have "digits_val acc (show_nat n) =
            digits_val (digits_val acc (show_nat (n div 10))) [digit n]"
      using False isdigit_show_nat [of "n div 10"]
      by (simp add: show_nat.simps [of n] digits_val_append)
    also have "\<dots> = (acc * 10 ^ length (show_nat (n div 10)) + n div 10) * 10 + n mod 10"
      using 1 [OF False] by (simp add: isdigit_digit digit_val_digit)
    also have "\<dots> = acc * 10 ^ length (show_nat n) + n"
      using False by (simp add: show_nat.simps [of n] algebra_simps)
    finally show ?thesis .
  qed
qed

lemma show_nat_nonempty: "show_nat n \<noteq> []"
  by (simp add: show_nat.simps [of n])

lemma strtol10_show_nat:
  assumes "n < 2 ^ 63"
  shows "strtol10 (show_nat n) = int n"
proof -
  obtain c r where cr: "show_nat n = c # r"
    using show_nat_nonempty [of n] by (cases "show_nat n") auto
  have "isdigit c" using isdigit_show_nat [of n] cr by simp
  then have c: "\<not> isspace c" "c \<noteq> CHR ''-''" "c \<noteq> CHR ''+''"
    by (auto simp: isdigit_def isspace_def)
  have d: "dropWhile isspace (show_nat n) = show_nat n"
    using cr c by simp
  have v: "digits_val 0 (show_nat n) = n"
    by (simp add: digits_val_show_nat)
  have "int n \<le> 2 ^ 63 - 1" using assms by (simp add: of_nat_less_numeral_power_cancel_iff)
  then show ?thesis
    using c v cr d unfolding strtol10_def Let_def
    by (simp del: digits_val.simps)
qed

lemma atoi_show_nat_word:
  assumes "n < 2 ^ 32"
  shows "atoi (show_nat n) = of_nat n"
proof -
  from assms have "n < 2 ^ 63"
    by (rule less_trans) simp
  then show ?thesis
    by (simp add: atoi_def strtol10_show_nat)
qed

lemma atoi_show_nat:
  assumes "n < 2 ^ 32"
  shows "unat (atoi (show_nat n)) = n"
  using assms by (simp add: atoi_show_nat_word unat_of_nat)

lemma split_comma_first:
  "CHR '','' \<notin> set s \<Longrightarrow> split_comma (s @ CHR '','' # en) = Some (s, en)"
proof -
  assume a: "CHR '','' \<notin> set s"
  then have p: "\<forall>x\<in>set s. x \<noteq> CHR '',''" by auto
  have "takeWhile (\<lambda>c. c \<noteq> CHR '','') (s @ CHR '','' # en) = s"
    using p by (simp add: takeWhile_append2)
  moreover have "dropWhile (\<lambda>c. c \<noteq> CHR '','') (s @ CHR '','' # en) = CHR '','' # en"
    using p by (simp add: dropWhile_append2)
  ultimately show ?thesis by (simp add: split_comma_def)
qed

lemma handle_w:
  "length (windows st) \<noteq> WINDOW_CMD_CNT \<Longrightarrow>
   handle_opt e st CHR ''w'' (Some a) oo =
     (case split_comma a of
        None \<Rightarrow>
          Inl ([Stderr (''ERROR: Malformed time window ('' @ a @ '')\<newline>''),
                Stderr ''ERROR: Expecting start,end\<newline>''] @ usage e, Exit (- 1))
      | Some (s, en) \<Rightarrow>
          Inr (st\<lparr>windows := windows st @ [\<lparr>win_start = atoi s, win_end = atoi en\<rparr>]\<rparr>))"
  by (simp add: handle_opt_def with_optarg_def fatal_def split: option.splits)

lemma comma_notin_show_nat: "CHR '','' \<notin> set (show_nat n)"
proof
  assume "CHR '','' \<in> set (show_nat n)"
  with isdigit_show_nat [of n] have "isdigit CHR '',''" by blast
  then show False by (simp add: isdigit_def)
qed

lemma handle_w_nocomma:
  assumes "length (windows st) \<noteq> WINDOW_CMD_CNT" and "CHR '','' \<notin> set a"
  shows "handle_opt e st CHR ''w'' (Some a) oo =
      Inl ([Stderr (''ERROR: Malformed time window ('' @ a @ '')\<newline>''),
            Stderr ''ERROR: Expecting start,end\<newline>''] @ usage e, Exit (- 1))"
  using assms by (simp add: handle_w split_comma_def)

lemma handle_w_split:
  assumes "length (windows st) \<noteq> WINDOW_CMD_CNT" and "CHR '','' \<notin> set s"
  shows "handle_opt e st CHR ''w'' (Some (s @ CHR '','' # en)) oo =
      Inr (st\<lparr>windows := windows st @ [\<lparr>win_start = atoi s, win_end = atoi en\<rparr>]\<rparr>)"
  using assms by (simp add: handle_w split_comma_first)

lemma handle_w_decimal:
  assumes "length (windows st) \<noteq> WINDOW_CMD_CNT" and "n < 2 ^ 32" and "m < 2 ^ 32"
  shows "handle_opt e st CHR ''w'' (Some (show_nat n @ CHR '','' # show_nat m)) oo =
      Inr (st\<lparr>windows := windows st @ [\<lparr>win_start = of_nat n, win_end = of_nat m\<rparr>]\<rparr>)"
proof -
  have "handle_opt e st CHR ''w'' (Some (show_nat n @ CHR '','' # show_nat m)) oo =
      Inr (st\<lparr>windows := windows st
        @ [\<lparr>win_start = atoi (show_nat n), win_end = atoi (show_nat m)\<rparr>]\<rparr>)"
    using assms(1) comma_notin_show_nat [of n] by (rule handle_w_split)
  then show ?thesis
    by (simp only: atoi_show_nat_word [OF assms(2)] atoi_show_nat_word [OF assms(3)])
qed

lemma handle_w_nodigit:
  assumes "length (windows st) \<noteq> WINDOW_CMD_CNT"
    and "CHR '','' \<notin> set s" and "\<forall>c\<in>set s. \<not> isdigit c" and "\<forall>c\<in>set en. \<not> isdigit c"
  shows "handle_opt e st CHR ''w'' (Some (s @ CHR '','' # en)) oo =
      Inr (st\<lparr>windows := windows st @ [\<lparr>win_start = 0, win_end = 0\<rparr>]\<rparr>)"
proof -
  have "handle_opt e st CHR ''w'' (Some (s @ CHR '','' # en)) oo =
      Inr (st\<lparr>windows := windows st @ [\<lparr>win_start = atoi s, win_end = atoi en\<rparr>]\<rparr>)"
    using assms(1,2) by (rule handle_w_split)
  then show ?thesis
    by (simp only: atoi_nodigit [OF assms(3)] atoi_nodigit [OF assms(4)])
qed

text \<open>
  Claim C4, as the code has it. For a \<open>-w\<close> argument handled below the cap of 1024
  windows: when it has no comma, the run ends with a usage error whose message names the
  argument, and exit code -1; when it has one, it is split at the first comma and the
  window is stored with both sides converted by \<open>atoi\<close> to 32 bits, whatever the sides
  are. A side that is a decimal numeral below \<open>2 ^ 32\<close> gives that number; a side
  without any digit gives 0 and no error.
\<close>

theorem window_option:
  assumes "length (windows st) \<noteq> WINDOW_CMD_CNT"
  shows "(CHR '','' \<notin> set a \<longrightarrow>
            handle_opt e st CHR ''w'' (Some a) oo =
              Inl ([Stderr (''ERROR: Malformed time window ('' @ a @ '')\<newline>''),
                    Stderr ''ERROR: Expecting start,end\<newline>''] @ usage e, Exit (- 1)))
       \<and> (CHR '','' \<notin> set s \<longrightarrow>
            handle_opt e st CHR ''w'' (Some (s @ CHR '','' # en)) oo =
              Inr (st\<lparr>windows := windows st
                         @ [\<lparr>win_start = atoi s, win_end = atoi en\<rparr>]\<rparr>))
       \<and> (n < 2 ^ 32 \<and> m < 2 ^ 32 \<longrightarrow>
            handle_opt e st CHR ''w'' (Some (show_nat n @ CHR '','' # show_nat m)) oo =
              Inr (st\<lparr>windows := windows st
                         @ [\<lparr>win_start = of_nat n, win_end = of_nat m\<rparr>]\<rparr>)
            \<and> unat (atoi (show_nat n)) = n \<and> unat (atoi (show_nat m)) = m)
       \<and> (CHR '','' \<notin> set s \<and> (\<forall>c\<in>set s. \<not> isdigit c) \<and> (\<forall>c\<in>set en. \<not> isdigit c) \<longrightarrow>
            handle_opt e st CHR ''w'' (Some (s @ CHR '','' # en)) oo =
              Inr (st\<lparr>windows := windows st @ [\<lparr>win_start = 0, win_end = 0\<rparr>]\<rparr>))"
  using handle_w_nocomma [OF assms, of a e oo] handle_w_split [OF assms, of s e en oo]
    handle_w_decimal [OF assms, of n m e oo] handle_w_nodigit [OF assms, of s en e oo]
    atoi_show_nat [of n] atoi_show_nat [of m]
  by blast

text \<open>With no window so far: \<open>12\<close> has no comma and is refused by name; \<open>10,20,30\<close>
  is split at its first comma, and \<open>atoi\<close> reads 20 from \<open>20,30\<close>.\<close>

theorem window_option_witness:
  "handle_opt ex_engine (init_opts ex_engine) CHR ''w'' (Some ''12'') CHR ''?'' =
     Inl ([Stderr ''ERROR: Malformed time window (12)\<newline>'',
           Stderr ''ERROR: Expecting start,end\<newline>''] @ usage ex_engine, Exit (- 1))
   \<and> handle_opt ex_engine (init_opts ex_engine) CHR ''w'' (Some ''10,20,30'') CHR ''?'' =
     Inr ((init_opts ex_engine)\<lparr>windows := [\<lparr>win_start = 10, win_end = 20\<rparr>]\<rparr>)"
proof -
  have l: "length (windows (init_opts ex_engine)) \<noteq> WINDOW_CMD_CNT"
    by (simp add: init_opts_def WINDOW_CMD_CNT_def)
  note w = window_option [OF l, of "''12''" ex_engine "CHR ''?''" "''10''" "''20,30''"]
  have a: "atoi ''10'' = 10" "atoi ''20,30'' = 20"
    by (simp_all add: atoi_def strtol10_def isspace_def isdigit_def digit_val_def)
  show ?thesis
    using w by (simp add: a init_opts_def)
qed

text \<open>
  Claim C4 as stated fails on \<open>bgpreader -w abc,def\<close>: neither side is a number, yet
  there is no usage error. The window 0,0 is pushed to the engine, the stream runs and the
  exit code is 0.
\<close>

theorem window_option_counterexample:
  "calls_of (fst (main ex_engine [''bgpreader'', ''-w'', ''abc,def''])) =
     [Create, AddIntervalFilter 0 0, SetDataInterface 1, RecordCreate, Start,
      GetNextRecord, GetNextRecord, RecordDestroy, Stop, Destroy]
   \<and> stderr_of (fst (main ex_engine [''bgpreader'', ''-w'', ''abc,def''])) = []
   \<and> snd (main ex_engine [''bgpreader'', ''-w'', ''abc,def'']) = Exit 0"
  by (simp add: run_defs ex_defs dispatch_def print_elem_def print_defs)

section \<open>The interface-option binder\<close>

lemma handle_opt_ds:
  "handle_opt e st c a oo = Inr st' \<Longrightarrow> datasource_id st \<noteq> 0 \<Longrightarrow> datasource_id st' \<noteq> 0"
  unfolding handle_opt_def with_optarg_def
  by (cases a) (simp_all split: if_splits option.splits prod.splits, auto)

lemma parse_opts_ds:
  "parse_opts e st i gs = Inr st' \<Longrightarrow> datasource_id st \<noteq> 0 \<Longrightarrow> datasource_id st' \<noteq> 0"
proof (induction gs arbitrary: st i)
  case Nil
  then show ?case by simp
next
  case (Cons g gs)
  then show ?case
    by (auto split: sum.splits dest: handle_opt_ds)
qed

lemma bind_options_append:
  "bind_options e i info pre = Inr evs \<Longrightarrow>
   bind_options e i info (pre @ rest) =
     (case bind_options e i info rest of
        Inl out \<Rightarrow> Inl (prepend evs out)
      | Inr evs' \<Rightarrow> Inr (evs @ evs'))"
proof (induction pre arbitrary: evs)
  case Nil
  then show ?case by (simp add: prepend_def split: sum.splits)
next
  case (Cons x pre)
  have nq: "\<not> (x \<noteq> [] \<and> hd x = CHR ''?'')"
  proof
    assume "x \<noteq> [] \<and> hd x = CHR ''?''"
    with Cons.prems show False by (simp split: sum.splits)
  qed
  obtain n v where sc: "split_comma x = Some (n, v)"
    using Cons.prems nq by (cases "split_comma x") auto
  obtain opt where lk: "get_data_interface_option_by_name e i n = Some opt"
    using Cons.prems nq sc
    by (cases "get_data_interface_option_by_name e i n") (auto split: option.splits)
  obtain evs' where b: "bind_options e i info pre = Inr evs'"
    using Cons.prems nq sc lk by (cases "bind_options e i info pre") auto
  have evs: "evs = Call (SetDataInterfaceOption i opt v) # evs'"
    using Cons.prems nq sc lk b by simp
  from nq have c: "(x \<noteq> [] \<and> hd x = CHR ''?'') = False"
    by simp
  show ?case
    using sc lk evs Cons.IH [OF b]
    by (simp add: c prepend_def split: sum.splits)
qed

lemma bind_options_sentinel:
  assumes "i \<noteq> 0"
  shows "bind_options e i (Some info) ((CHR ''?'' # x) # post) =
     Inl ([Stderr (''Data interface options for '' @ [CHR 0x27] @ if_name info
                   @ [CHR 0x27] @ '':\<newline>'')]
          @ (if if_options e i = [] then [Stderr ''   [NONE]\<newline>'']
             else map option_line (if_options e i))
          @ [Stderr ''\<newline>''] @ usage e, Exit 0)"
  using assms by (simp add: dump_if_options_def)

lemma bind_options_quiet:
  "bind_options e i info xs = Inr evs \<Longrightarrow> stderr_of evs = [] \<and> stdout_of evs = []"
proof (induction xs arbitrary: evs)
  case Nil
  then show ?case by simp
next
  case (Cons x xs)
  have nq: "\<not> (x \<noteq> [] \<and> hd x = CHR ''?'')"
  proof
    assume "x \<noteq> [] \<and> hd x = CHR ''?''"
    with Cons.prems show False by (simp split: sum.splits)
  qed
  obtain n v where sc: "split_comma x = Some (n, v)"
    using Cons.prems nq by (cases "split_comma x") auto
  obtain opt where lk: "get_data_interface_option_by_name e i n = Some opt"
    using Cons.prems nq sc
    by (cases "get_data_interface_option_by_name e i n") (auto split: option.splits)
  obtain evs' where b: "bind_options e i info xs = Inr evs'"
    using Cons.prems nq sc lk by (cases "bind_options e i info xs") auto
  have evs: "evs = Call (SetDataInterfaceOption i opt v) # evs'"
    using Cons.prems nq sc lk b by simp
  from Cons.IH [OF b] evs show ?case by simp
qed

lemma stderr_option_lines:
  "stderr_of (map option_line opts) =
     concat (map (\<lambda>opt. ''   '' @ pad15 (opt_name opt) @ opt_description opt @ ''\<newline>'') opts)"
  by (induction opts) (simp_all add: option_line_def)

lemma stdout_option_lines: "stdout_of (map option_line opts) = []"
  by (induction opts) (simp_all add: option_line_def)

lemma calls_option_lines: "calls_of (map option_line opts) = []"
  by (induction opts) (simp_all add: option_line_def)

text \<open>
  Claim C10. When the option loop has run to its end and the binder reaches an entry of
  \<open>-o\<close> that begins with \<open>?\<close> (the sentinel \<open>?\<close> itself is one; the code looks at
  the first character only), the entries before it having been applied and the engine
  having given the info of the current interface, the program prints on standard error
  the heading with the name of the interface, the options the engine advertises for it,
  each with its description, or \<open>[NONE]\<close> when there are none, an empty line and the
  usage text, and exits with code 0. The calls on the engine are those of the entries
  before the sentinel: no entry after it is resolved or applied.
\<close>

theorem option_sentinel:
  assumes "create_ok e" and "default_if e \<noteq> 0"
    and "parse_opts e (init_opts e) 1 (map snd (getopt_calls argv)) = Inr st"
    and "interface_options st = pre @ (CHR ''?'' # x) # post"
    and "bind_options e (datasource_id st) (datasource_info st) pre = Inr evs"
    and "datasource_info st = Some info"
  shows "main e argv =
     (Call Create # evs
      @ [Stderr (''Data interface options for '' @ [CHR 0x27] @ if_name info
                 @ [CHR 0x27] @ '':\<newline>'')]
      @ (if if_options e (datasource_id st) = [] then [Stderr ''   [NONE]\<newline>'']
         else map option_line (if_options e (datasource_id st)))
      @ [Stderr ''\<newline>''] @ usage e, Exit 0)
   \<and> stderr_of (fst (main e argv)) =
       ''Data interface options for '' @ [CHR 0x27] @ if_name info @ [CHR 0x27] @ '':\<newline>''
       @ (if if_options e (datasource_id st) = [] then ''   [NONE]\<newline>''
          else concat (map (\<lambda>opt. ''   '' @ pad15 (opt_name opt) @ opt_description opt
                                   @ ''\<newline>'') (if_options e (datasource_id st))))
       @ ''\<newline>'' @ usage_head @ stderr_of (data_if_usage e) @ usage_tail
   \<and> stdout_of (fst (main e argv)) = []
   \<and> calls_of (fst (main e argv)) = Create # calls_of evs"
proof -
  have "datasource_id (init_opts e) \<noteq> 0"
    using assms(2) by (simp add: init_opts_def)
  with assms(3) have i: "datasource_id st \<noteq> 0"
    by (rule parse_opts_ds)
  have "bind_options e (datasource_id st) (datasource_info st) (interface_options st) =
     Inl (prepend evs
       ([Stderr (''Data interface options for '' @ [CHR 0x27] @ if_name info
                 @ [CHR 0x27] @ '':\<newline>'')]
        @ (if if_options e (datasource_id st) = [] then [Stderr ''   [NONE]\<newline>'']
           else map option_line (if_options e (datasource_id st)))
        @ [Stderr ''\<newline>''] @ usage e, Exit 0))"
    unfolding assms(4)
    using bind_options_append [OF assms(5), of "(CHR ''?'' # x) # post"]
      bind_options_sentinel [OF i, of e info x post] assms(6)
    by (simp del: bind_options.simps)
  then have m: "main e argv =
     (Call Create # evs
      @ [Stderr (''Data interface options for '' @ [CHR 0x27] @ if_name info
                 @ [CHR 0x27] @ '':\<newline>'')]
      @ (if if_options e (datasource_id st) = [] then [Stderr ''   [NONE]\<newline>'']
         else map option_line (if_options e (datasource_id st)))
      @ [Stderr ''\<newline>''] @ usage e, Exit 0)"
    using assms(1,2,3) by (simp add: main_def run_opts_def)
  note q = bind_options_quiet [OF assms(5)]
  have s: "stderr_of (fst (main e argv)) =
       ''Data interface options for '' @ [CHR 0x27] @ if_name info @ [CHR 0x27] @ '':\<newline>''
       @ (if if_options e (datasource_id st) = [] then ''   [NONE]\<newline>''
          else concat (map (\<lambda>opt. ''   '' @ pad15 (opt_name opt) @ opt_description opt
                                   @ ''\<newline>'') (if_options e (datasource_id st))))
       @ ''\<newline>'' @ usage_head @ stderr_of (data_if_usage e) @ usage_tail"
    unfolding m using q
    by (simp add: stderr_of_append stderr_option_lines stderr_usage)
  have o: "stdout_of (fst (main e argv)) = []"
    unfolding m using q
    by (simp add: stdout_of_append stdout_option_lines stdout_usage)
  have c: "calls_of (fst (main e argv)) = Create # calls_of evs"
    unfolding m
    by (simp add: calls_of_append calls_option_lines calls_usage)
  from m s o c show ?thesis by simp
qed

text \<open>In \<open>bgpreader -w 1,2 -d singlefile -o rib-file,x -o ? -o junk\<close> the first entry
  is applied, the two options of \<open>singlefile\<close> are listed, and the malformed entry after
  the sentinel is not looked at. In \<open>bgpreader -o ?\<close> the interface is the default one,
  which has no option.\<close>

theorem option_sentinel_witness:
  "stderr_of (fst (main ex_engine
      [''bgpreader'', ''-w'', ''1,2'', ''-d'', ''singlefile'', ''-o'', ''rib-file,x'',
       ''-o'', ''?'', ''-o'', ''junk''])) =
     ''Data interface options for 'singlefile':\<newline>''
     @ ''   rib-file       rib mrt file\<newline>''
     @ ''   upd-file       updates mrt file\<newline>''
     @ ''\<newline>'' @ ex_usage_text
   \<and> calls_of (fst (main ex_engine
      [''bgpreader'', ''-w'', ''1,2'', ''-d'', ''singlefile'', ''-o'', ''rib-file,x'',
       ''-o'', ''?'', ''-o'', ''junk''])) =
     [Create, SetDataInterfaceOption 2
                \<lparr>opt_name = ''rib-file'', opt_description = ''rib mrt file''\<rparr> ''x'']
   \<and> snd (main ex_engine
      [''bgpreader'', ''-w'', ''1,2'', ''-d'', ''singlefile'', ''-o'', ''rib-file,x'',
       ''-o'', ''?'', ''-o'', ''junk'']) = Exit 0
   \<and> stderr_of (fst (main ex_engine [''bgpreader'', ''-o'', ''?''])) =
     ''Data interface options for 'broker':\<newline>'' @ ''   [NONE]\<newline>''
     @ ''\<newline>'' @ ex_usage_text
   \<and> calls_of (fst (main ex_engine [''bgpreader'', ''-o'', ''?''])) = [Create]
   \<and> snd (main ex_engine [''bgpreader'', ''-o'', ''?'']) = Exit 0"
proof -
  let ?st = "(init_opts ex_engine)\<lparr>windows := [\<lparr>win_start = 1, win_end = 2\<rparr>],
     datasource_id := 2, datasource_info := ex_info 2,
     interface_options := [''rib-file,x'', ''?'', ''junk'']\<rparr>"
  let ?st2 = "(init_opts ex_engine)\<lparr>interface_options := [''?'']\<rparr>"
  have a: "create_ok ex_engine" and b: "default_if ex_engine \<noteq> 0"
    by (simp_all add: ex_engine_def)
  have c: "parse_opts ex_engine (init_opts ex_engine) 1
      (map snd (getopt_calls [''bgpreader'', ''-w'', ''1,2'', ''-d'', ''singlefile'',
         ''-o'', ''rib-file,x'', ''-o'', ''?'', ''-o'', ''junk''])) = Inr ?st"
    by (simp add: run_defs ex_defs)
  have d: "interface_options ?st = [''rib-file,x''] @ (CHR ''?'' # []) # [''junk'']"
    by simp
  have e: "bind_options ex_engine (datasource_id ?st) (datasource_info ?st) [''rib-file,x''] =
      Inr [Call (SetDataInterfaceOption 2
                  \<lparr>opt_name = ''rib-file'', opt_description = ''rib mrt file''\<rparr> ''x'')]"
    by (simp add: split_comma_def get_data_interface_option_by_name_def ex_defs)
  have f: "datasource_info ?st =
      Some \<lparr>if_name = ''singlefile'', if_description = ''Single file''\<rparr>"
    by (simp add: ex_info_def)
  note h = option_sentinel [OF a b c d e f]
  have c2: "parse_opts ex_engine (init_opts ex_engine) 1
      (map snd (getopt_calls [''bgpreader'', ''-o'', ''?''])) = Inr ?st2"
    by (simp add: run_defs ex_defs)
  have d2: "interface_options ?st2 = [] @ (CHR ''?'' # []) # []"
    by simp
  have e2: "bind_options ex_engine (datasource_id ?st2) (datasource_info ?st2) [] = Inr []"
    by simp
  have f2: "datasource_info ?st2 = Some \<lparr>if_name = ''broker'', if_description = ''Broker''\<rparr>"
    by (simp add: init_opts_def ex_engine_def ex_info_def)
  note h2 = option_sentinel [OF a b c2 d2 e2 f2]
  have u: "usage_head @ stderr_of (data_if_usage ex_engine) @ usage_tail = ex_usage_text"
    using ex_usage by (simp add: stderr_usage)
  have o: "if_options ex_engine (datasource_id ?st) =
      [\<lparr>opt_name = ''rib-file'', opt_description = ''rib mrt file''\<rparr>,
       \<lparr>opt_name = ''upd-file'', opt_description = ''updates mrt file''\<rparr>]"
    "if_options ex_engine (datasource_id ?st2) = []"
    by (simp_all add: ex_engine_def ex_options_def init_opts_def)
  have s1: "stderr_of (fst (main ex_engine
      [''bgpreader'', ''-w'', ''1,2'', ''-d'', ''singlefile'', ''-o'', ''rib-file,x'',
       ''-o'', ''?'', ''-o'', ''junk''])) =
     ''Data interface options for 'singlefile':\<newline>''
     @ ''   rib-file       rib mrt file\<newline>''
     @ ''   upd-file       updates mrt file\<newline>''
     @ ''\<newline>'' @ ex_usage_text"
    unfolding h [THEN conjunct2, THEN conjunct1] u o by (simp add: pad15_eval)
  have k1: "calls_of (fst (main ex_engine
      [''bgpreader'', ''-w'', ''1,2'', ''-d'', ''singlefile'', ''-o'', ''rib-file,x'',
       ''-o'', ''?'', ''-o'', ''junk''])) =
     [Create, SetDataInterfaceOption 2
                \<lparr>opt_name = ''rib-file'', opt_description = ''rib mrt file''\<rparr> ''x'']"
    unfolding h [THEN conjunct2, THEN conjunct2, THEN conjunct2] by simp
  have x1: "snd (main ex_engine
      [''bgpreader'', ''-w'', ''1,2'', ''-d'', ''singlefile'', ''-o'', ''rib-file,x'',
       ''-o'', ''?'', ''-o'', ''junk'']) = Exit 0"
    unfolding h [THEN conjunct1] by simp
  have s2: "stderr_of (fst (main ex_engine [''bgpreader'', ''-o'', ''?''])) =
     ''Data interface options for 'broker':\<newline>'' @ ''   [NONE]\<newline>''
     @ ''\<newline>'' @ ex_usage_text"
    unfolding h2 [THEN conjunct2, THEN conjunct1] u o by simp
  have k2: "calls_of (fst (main ex_engine [''bgpreader'', ''-o'', ''?''])) = [Create]"
    unfolding h2 [THEN conjunct2, THEN conjunct2, THEN conjunct2] by simp
  have x2: "snd (main ex_engine [''bgpreader'', ''-o'', ''?'']) = Exit 0"
    unfolding h2 [THEN conjunct1] by simp
  from s1 k1 x1 s2 k2 x2 show ?thesis by simp
qed

section \<open>The order of the data interface and its options\<close>


















end
